theory Spec2Isabelle
  imports Main "HOL-Library.Sublist"
begin

section \<open>Values, errors and the log of external calls\<close>

text \<open>
  The two classes under study are \<open>Cache\<close> (hosted-tool cache plus GitHub Actions cache)
  and \<open>Install\<close> (download of the undock binary). Both are thin sequences of calls into
  Node and the \<open>@actions\<close> packages, so the model is a state-and-exception monad over
  the log of those calls. The log is the state: every call to a collaborator that
  touches the file system or the network is appended to it, in program order, whether
  it returns or throws.
\<close>

datatype error =
    Error string       \<comment> \<open>\<open>throw new Error(message)\<close> in the sources\<close>
  | TypeError string   \<comment> \<open>a member read on \<open>undefined\<close>\<close>
  | Raised string      \<comment> \<open>an exception thrown inside a collaborator\<close>

datatype event =
    ExistsSync string                       \<comment> \<open>\<open>fs.existsSync(path)\<close>\<close>
  | MkdirSync string                        \<comment> \<open>\<open>fs.mkdirSync(path, {recursive: true})\<close>\<close>
  | CopyFileSync string string              \<comment> \<open>\<open>fs.copyFileSync(src, dest)\<close>\<close>
  | TcFind string string string             \<comment> \<open>\<open>tc.find(tool, version, arch)\<close>\<close>
  | TcCacheDir string string string string  \<comment> \<open>\<open>tc.cacheDir(dir, tool, version, arch)\<close>\<close>
  | TcDownloadTool string                   \<comment> \<open>\<open>tc.downloadTool(url)\<close>\<close>
  | TcExtractZip string                     \<comment> \<open>\<open>tc.extractZip(file)\<close>\<close>
  | TcExtractTar string                     \<comment> \<open>\<open>tc.extractTar(file)\<close>\<close>
  | SaveCache "string list" string          \<comment> \<open>\<open>cache.saveCache(paths, key)\<close>\<close>
  | RestoreCache "string list" string       \<comment> \<open>\<open>cache.restoreCache(paths, key)\<close>\<close>
  | HttpGet string                          \<comment> \<open>\<open>http.get(url)\<close> and \<open>readBody()\<close>\<close>

record HttpClientResponse =
  statusCode :: "nat option"   \<comment> \<open>\<open>resp.message.statusCode\<close>, a number or undefined\<close>
  body :: string

text \<open>
  \<open>GitHubRelease\<close> and \<open>DownloadVersion\<close> are declared in type files that are not among
  the sources. \<open>DownloadVersion\<close> has the three members of the literal in
  \<open>getDownloadVersion\<close>; of a release the code reads \<open>tag_name\<close> only.
\<close>

record GitHubRelease =
  tag_name :: string

record DownloadVersion =
  version :: string
  downloadURL :: string
  releasesURL :: string

text \<open>
  The runtime and the collaborators. What the process reads from its environment is a
  plain value. A collaborator that depends on the file system or the network is a
  function of the log so far and of its arguments, and returns a value or throws.
  \<open>path.join\<close>, \<open>JSON.parse\<close> and the two \<open>semver\<close> functions are pure library functions
  whose code is not part of the repository: they are parameters as well.
\<close>

record world =
  os_platform :: string                  \<comment> \<open>\<open>os.platform()\<close>\<close>
  os_arch :: string                      \<comment> \<open>\<open>os.arch()\<close>\<close>
  os_homedir :: string                   \<comment> \<open>\<open>os.homedir()\<close>\<close>
  arm_version :: "string option"         \<comment> \<open>\<open>process.config.variables.arm_version\<close>\<close>
  cache_isFeatureAvailable :: bool       \<comment> \<open>\<open>cache.isFeatureAvailable()\<close>\<close>
  path_join :: "string list \<Rightarrow> string"
  semver_clean :: "string \<Rightarrow> string option"
  semver_valid :: "string \<Rightarrow> string option"
  JSON_parse :: "string \<Rightarrow> error + (string \<rightharpoonup> GitHubRelease)"
  fs_existsSync :: "event list \<Rightarrow> string \<Rightarrow> bool"
  fs_mkdirSync :: "event list \<Rightarrow> string \<Rightarrow> error + unit"
  fs_copyFileSync :: "event list \<Rightarrow> string \<Rightarrow> string \<Rightarrow> error + unit"
  tc_find :: "event list \<Rightarrow> string \<Rightarrow> string \<Rightarrow> string \<Rightarrow> error + string"
  tc_cacheDir :: "event list \<Rightarrow> string \<Rightarrow> string \<Rightarrow> string \<Rightarrow> string \<Rightarrow> error + string"
  tc_downloadTool :: "event list \<Rightarrow> string \<Rightarrow> error + string"
  tc_extractZip :: "event list \<Rightarrow> string \<Rightarrow> error + string"
  tc_extractTar :: "event list \<Rightarrow> string \<Rightarrow> error + string"
  cache_saveCache :: "event list \<Rightarrow> string list \<Rightarrow> string \<Rightarrow> error + unit"
  cache_restoreCache :: "event list \<Rightarrow> string list \<Rightarrow> string \<Rightarrow> error + string option"
  http_get :: "event list \<Rightarrow> string \<Rightarrow> error + HttpClientResponse"

type_synonym 'a io = "event list \<Rightarrow> (error + 'a) \<times> event list"

definition ret :: "'a \<Rightarrow> 'a io" where
  "ret x = (\<lambda>t. (Inr x, t))"

definition throw :: "error \<Rightarrow> 'a io" where
  "throw e = (\<lambda>t. (Inl e, t))"

definition bnd :: "'a io \<Rightarrow> ('a \<Rightarrow> 'b io) \<Rightarrow> 'b io" where
  "bnd m f = (\<lambda>t. case m t of (Inl e, t') \<Rightarrow> (Inl e, t') | (Inr x, t') \<Rightarrow> f x t')"

definition call :: "event \<Rightarrow> (event list \<Rightarrow> error + 'a) \<Rightarrow> 'a io" where
  "call ev outcome = (\<lambda>t. (outcome t, t @ [ev]))"

section \<open>Strings\<close>

text \<open>
  \<open>util.format\<close> for the directives the templates of this program contain: \<open>%s\<close> takes
  the next argument, \<open>%%\<close> is a percent sign, a \<open>%s\<close> with no argument left stays as it
  is, and arguments left over are appended, each after a space. The arguments are
  strings and are inserted as they are (they are not scanned for directives).
\<close>

fun util_format :: "string \<Rightarrow> string list \<Rightarrow> string" where
  "util_format [] args = concat (map (\<lambda>a. CHR '' '' # a) args)"
| "util_format [c] args = c # util_format [] args"
| "util_format (c # d # fs) args =
     (if c = CHR ''%'' \<and> d = CHR ''s'' then
        (case args of
           [] \<Rightarrow> c # d # util_format fs []
         | a # as \<Rightarrow> a @ util_format fs as)
      else if c = CHR ''%'' \<and> d = CHR ''%'' then c # util_format fs args
      else c # util_format (d # fs) args)"

definition digit_char :: "nat \<Rightarrow> char" where
  "digit_char d = ''0123456789'' ! (d mod 10)"

text \<open>A number inside a template literal: its decimal digits.\<close>

fun string_of_nat :: "nat \<Rightarrow> string" where
  "string_of_nat n =
     (if n < 10 then [digit_char n] else string_of_nat (n div 10) @ [digit_char n])"

declare string_of_nat.simps [simp del]

definition dquote :: string where
  "dquote = [CHR 0x22]"

text \<open>
  JavaScript truthiness of the values the code tests: a string is truthy when it is not
  empty, \<open>undefined\<close> is falsy.
\<close>

definition truthy :: "string \<Rightarrow> bool" where
  "truthy s = (s \<noteq> [])"

definition truthy_opt :: "string option \<Rightarrow> bool" where
  "truthy_opt v = (case v of None \<Rightarrow> False | Some s \<Rightarrow> truthy s)"

section \<open>Cache\<close>

record CacheOpts =
  htcName :: string
  htcVersion :: string
  baseCacheDir :: string
  cacheFile :: string

text \<open>
  The object \<open>Install.download\<close> passes to the constructor has one member more than the
  interface declares. \<open>Cache\<close> keeps the object it is given, so its functions take any
  extension of \<open>CacheOpts\<close>.
\<close>

record CacheOptsInstall = CacheOpts +
  ghaNoCache :: "bool option"

record 'o Cache =
  opts :: 'o
  ghaCacheKey :: string
  cacheDir :: string
  cachePath :: string

definition Cache_platform :: "world \<Rightarrow> string" where
  "Cache_platform w =
     os_platform w @ ''-'' @ os_arch w @
     (case arm_version w of
        None \<Rightarrow> ''''
      | Some a \<Rightarrow> if truthy a then ''v'' @ a else '''')"

definition Cache_constructor :: "world \<Rightarrow> 'a CacheOpts_scheme \<Rightarrow> ('a CacheOpts_scheme) Cache io" where
  "Cache_constructor w os =
     (let key = util_format ''%s-%s-%s'' [htcName os, htcVersion os, Cache_platform w];
          dir = path_join w [baseCacheDir os, htcVersion os, Cache_platform w];
          c = \<lparr>opts = os, ghaCacheKey = key, cacheDir = dir,
               cachePath = path_join w [dir, cacheFile os]\<rparr>
      in bnd (call (ExistsSync dir) (\<lambda>t. Inr (fs_existsSync w t dir)))
           (\<lambda>ex. if \<not> ex
                  then bnd (call (MkdirSync dir) (\<lambda>t. fs_mkdirSync w t dir)) (\<lambda>_. ret c)
                  else ret c))"

definition Cache_copyToCache :: "world \<Rightarrow> ('a CacheOpts_scheme) Cache \<Rightarrow> string \<Rightarrow> string io" where
  "Cache_copyToCache w c file =
     bnd (call (CopyFileSync file (cachePath c)) (\<lambda>t. fs_copyFileSync w t file (cachePath c)))
       (\<lambda>_. ret (cachePath c))"

definition Cache_save :: "world \<Rightarrow> ('a CacheOpts_scheme) Cache \<Rightarrow> string \<Rightarrow> string io" where
  "Cache_save w c file =
     bnd (Cache_copyToCache w c file) (\<lambda>cachePath'.
     bnd (call (TcCacheDir (cacheDir c) (htcName (opts c)) (htcVersion (opts c)) (Cache_platform w))
            (\<lambda>t. tc_cacheDir w t (cacheDir c) (htcName (opts c)) (htcVersion (opts c))
                    (Cache_platform w))) (\<lambda>htcPath.
     if cache_isFeatureAvailable w
     then bnd (call (SaveCache [cacheDir c] (ghaCacheKey c))
                 (\<lambda>t. cache_saveCache w t [cacheDir c] (ghaCacheKey c)))
            (\<lambda>_. ret cachePath')
     else ret cachePath'))"

definition Cache_find :: "world \<Rightarrow> ('a CacheOpts_scheme) Cache \<Rightarrow> string io" where
  "Cache_find w c =
     bnd (call (TcFind (htcName (opts c)) (htcVersion (opts c)) (Cache_platform w))
            (\<lambda>t. tc_find w t (htcName (opts c)) (htcVersion (opts c)) (Cache_platform w)))
       (\<lambda>htcPath.
     if truthy htcPath
     then Cache_copyToCache w c (htcPath @ ''/'' @ cacheFile (opts c))
     else if cache_isFeatureAvailable w
     then bnd (call (RestoreCache [cacheDir c] (ghaCacheKey c))
                 (\<lambda>t. cache_restoreCache w t [cacheDir c] (ghaCacheKey c))) (\<lambda>hit.
          if truthy_opt hit
          then bnd (call (TcCacheDir (cacheDir c) (htcName (opts c)) (htcVersion (opts c))
                            (Cache_platform w))
                      (\<lambda>t. tc_cacheDir w t (cacheDir c) (htcName (opts c)) (htcVersion (opts c))
                              (Cache_platform w)))
                 (\<lambda>htcPath'. Cache_copyToCache w c (htcPath' @ ''/'' @ cacheFile (opts c)))
          else ret '''')
     else ret '''')"

text \<open>Names for the calls the cache makes and for what the world answers to them.\<close>

abbreviation ev_find :: "world \<Rightarrow> ('a CacheOpts_scheme) Cache \<Rightarrow> event" where
  "ev_find w c \<equiv> TcFind (htcName (opts c)) (htcVersion (opts c)) (Cache_platform w)"

abbreviation ev_register :: "world \<Rightarrow> ('a CacheOpts_scheme) Cache \<Rightarrow> event" where
  "ev_register w c \<equiv>
     TcCacheDir (cacheDir c) (htcName (opts c)) (htcVersion (opts c)) (Cache_platform w)"

abbreviation ev_upload :: "('a CacheOpts_scheme) Cache \<Rightarrow> event" where
  "ev_upload c \<equiv> SaveCache [cacheDir c] (ghaCacheKey c)"

abbreviation ev_restore :: "('a CacheOpts_scheme) Cache \<Rightarrow> event" where
  "ev_restore c \<equiv> RestoreCache [cacheDir c] (ghaCacheKey c)"

abbreviation ev_copy :: "('a CacheOpts_scheme) Cache \<Rightarrow> string \<Rightarrow> event" where
  "ev_copy c file \<equiv> CopyFileSync file (cachePath c)"

abbreviation do_find :: "world \<Rightarrow> ('a CacheOpts_scheme) Cache \<Rightarrow> event list \<Rightarrow> error + string" where
  "do_find w c t \<equiv> tc_find w t (htcName (opts c)) (htcVersion (opts c)) (Cache_platform w)"

abbreviation do_register :: "world \<Rightarrow> ('a CacheOpts_scheme) Cache \<Rightarrow> event list \<Rightarrow> error + string" where
  "do_register w c t \<equiv>
     tc_cacheDir w t (cacheDir c) (htcName (opts c)) (htcVersion (opts c)) (Cache_platform w)"

abbreviation do_upload :: "world \<Rightarrow> ('a CacheOpts_scheme) Cache \<Rightarrow> event list \<Rightarrow> error + unit" where
  "do_upload w c t \<equiv> cache_saveCache w t [cacheDir c] (ghaCacheKey c)"

abbreviation do_restore :: "world \<Rightarrow> ('a CacheOpts_scheme) Cache \<Rightarrow> event list \<Rightarrow> error + string option" where
  "do_restore w c t \<equiv> cache_restoreCache w t [cacheDir c] (ghaCacheKey c)"

abbreviation do_copy :: "world \<Rightarrow> ('a CacheOpts_scheme) Cache \<Rightarrow> string \<Rightarrow> event list \<Rightarrow> error + unit" where
  "do_copy w c file t \<equiv> fs_copyFileSync w t file (cachePath c)"

abbreviation htc_file :: "('a CacheOpts_scheme) Cache \<Rightarrow> string \<Rightarrow> string" where
  "htc_file c htcPath \<equiv> htcPath @ ''/'' @ cacheFile (opts c)"

section \<open>Install\<close>

definition Install_filename :: "world \<Rightarrow> string \<Rightarrow> string" where
  "Install_filename w version' =
     (let arch =
            (if os_arch w = ''x64'' then ''amd64''
             else if os_arch w = ''ppc64'' then ''ppc64le''
             else if os_arch w = ''arm'' then
               (case arm_version w of
                  None \<Rightarrow> ''arm''
                | Some a \<Rightarrow> if truthy a then ''armv'' @ a else ''arm'')
             else os_arch w);
          platform = (if os_platform w = ''win32'' then ''windows'' else os_platform w);
          ext = (if os_platform w = ''win32'' then ''.zip'' else ''.tar.gz'')
      in util_format ''undock_%s_%s_%s%s'' [version', platform, arch, ext])"

text \<open>
  \<open>version.replace(/^v+|v+$/g, '')\<close>. The global replace scans the string once from the
  left. At the start the first alternative removes the whole run of leading \<open>v\<close>. From
  then on only the second alternative can match, and it matches at the first position from
  which nothing but \<open>v\<close> follows up to the end: the scan copies characters until it
  reaches that position and drops the rest.
\<close>

fun strip_v_at_end :: "string \<Rightarrow> string" where
  "strip_v_at_end [] = []"
| "strip_v_at_end (c # cs) =
     (if list_all (\<lambda>x. x = CHR ''v'') (c # cs) then [] else c # strip_v_at_end cs)"

definition Install_vspec :: "string \<Rightarrow> string" where
  "Install_vspec version' = strip_v_at_end (dropWhile (\<lambda>x. x = CHR ''v'') version')"

definition Install_getDownloadVersion :: "string \<Rightarrow> DownloadVersion" where
  "Install_getDownloadVersion v =
     \<lparr>version = v,
      downloadURL = ''https://github.com/crazy-max/undock/releases/download/v%s/%s'',
      releasesURL =
        ''https://raw.githubusercontent.com/docker/actions-toolkit/main/.github/undock-releases.json''\<rparr>"

abbreviation releases_url :: string where
  "releases_url \<equiv>
     ''https://raw.githubusercontent.com/docker/actions-toolkit/main/.github/undock-releases.json''"

text \<open>
  \<open>releases[version.version]\<close> reads a member of the object \<open>JSON.parse\<close> returned. A
  member the object does not have itself is looked up in \<open>Object.prototype\<close>, whose
  members are functions or objects and so truthy; every other name gives \<open>undefined\<close>.
\<close>

datatype js_member = Own GitHubRelease | Inherited string

definition Object_prototype :: "string list" where
  "Object_prototype =
     [''constructor'', ''__defineGetter__'', ''__defineSetter__'', ''hasOwnProperty'',
      ''__lookupGetter__'', ''__lookupSetter__'', ''isPrototypeOf'', ''propertyIsEnumerable'',
      ''toString'', ''valueOf'', ''__proto__'', ''toLocaleString'']"

definition js_get :: "(string \<rightharpoonup> GitHubRelease) \<Rightarrow> string \<Rightarrow> js_member option" where
  "js_get obj k =
     (case obj k of
        Some r \<Rightarrow> Some (Own r)
      | None \<Rightarrow> if k \<in> set Object_prototype then Some (Inherited k) else None)"

definition member_tag_name :: "js_member \<Rightarrow> string option" where
  "member_tag_name m = (case m of Own r \<Rightarrow> Some (tag_name r) | Inherited _ \<Rightarrow> None)"

definition http_status :: "HttpClientResponse \<Rightarrow> nat" where
  "http_status resp = (case statusCode resp of None \<Rightarrow> 500 | Some n \<Rightarrow> if n = 0 then 500 else n)"

definition Install_getRelease :: "world \<Rightarrow> DownloadVersion \<Rightarrow> js_member io" where
  "Install_getRelease w dv =
     bnd (call (HttpGet (releasesURL dv)) (\<lambda>t. http_get w t (releasesURL dv))) (\<lambda>resp.
     if http_status resp \<ge> 400
     then throw (Error (''Failed to get Undock releases from '' @ releasesURL dv @
                        '' with status code '' @ string_of_nat (http_status resp) @ '': '' @
                        body resp))
     else (case JSON_parse w (body resp) of
             Inl e \<Rightarrow> throw e
           | Inr releases \<Rightarrow>
               (case js_get releases (version dv) of
                  None \<Rightarrow> throw (Error (''Cannot find Undock release '' @ version dv @
                                        '' in '' @ releasesURL dv))
                | Some r \<Rightarrow> ret r)))"

text \<open>\<open>semver.clean(vspec) || ''\<close>: the cleaned version, or the empty string.\<close>

definition clean_or_empty :: "world \<Rightarrow> string \<Rightarrow> string" where
  "clean_or_empty w vspec =
     (case semver_clean w vspec of None \<Rightarrow> '''' | Some s \<Rightarrow> if truthy s then s else '''')"

text \<open>
  Lines 40 to 52 of \<open>Install.download\<close>: the download version, the release, its version
  spec and the validity check. A release without \<open>tag_name\<close> makes \<open>vspec\<close> call
  \<open>replace\<close> on \<open>undefined\<close>.
\<close>

definition Install_download_resolve :: "world \<Rightarrow> string \<Rightarrow> (DownloadVersion \<times> string) io" where
  "Install_download_resolve w v =
     (let dv = Install_getDownloadVersion v
      in bnd (Install_getRelease w dv) (\<lambda>release.
         case member_tag_name release of
           None \<Rightarrow> throw (TypeError ''undefined.replace'')
         | Some tag \<Rightarrow>
             (let vspec = Install_vspec tag;
                  c = clean_or_empty w vspec
              in if \<not> truthy_opt (semver_valid w c)
                 then throw (Error (''Invalid Undock version '' @ dquote @ vspec @ dquote @ ''.''))
                 else ret (dv, vspec))))"

definition Install_exe :: "world \<Rightarrow> string" where
  "Install_exe w = (if os_platform w = ''win32'' then ''undock.exe'' else ''undock'')"

definition Install_cacheOpts :: "world \<Rightarrow> string \<Rightarrow> bool option \<Rightarrow> CacheOptsInstall" where
  "Install_cacheOpts w vspec gha =
     \<lparr>htcName = ''undock-dl-bin'',
      htcVersion = vspec,
      baseCacheDir = path_join w [os_homedir w, ''.bin''],
      cacheFile = Install_exe w,
      ghaNoCache = gha\<rparr>"

text \<open>The rest of \<open>Install.download\<close>, lines 54 to 87, after the resolution above.\<close>

definition Install_download :: "world \<Rightarrow> string \<Rightarrow> bool option \<Rightarrow> string io" where
  "Install_download w v gha =
     bnd (Install_download_resolve w v) (\<lambda>(dv, vspec).
     bnd (Cache_constructor w (Install_cacheOpts w vspec gha)) (\<lambda>installCache.
     bnd (Cache_find w installCache) (\<lambda>cacheFoundPath.
     if truthy cacheFoundPath then ret cacheFoundPath
     else
       (let url = util_format (downloadURL dv) [vspec, Install_filename w vspec]
        in bnd (call (TcDownloadTool url) (\<lambda>t. tc_downloadTool w t url)) (\<lambda>htcDownloadPath.
           bnd (if os_platform w = ''win32''
                then call (TcExtractZip htcDownloadPath) (\<lambda>t. tc_extractZip w t htcDownloadPath)
                else call (TcExtractTar htcDownloadPath) (\<lambda>t. tc_extractTar w t htcDownloadPath))
             (\<lambda>htcExtPath.
           bnd (Cache_save w installCache (path_join w [htcExtPath, Install_exe w]))
             (\<lambda>cacheSavePath. ret cacheSavePath)))))))"

section \<open>What the specification says, in its own words\<close>

text \<open>
  The archive name of the specification, as a function of the four values it names:
  \<open>{toolName}_{version}_{platformName}_{archExt}{extension}\<close>.
\<close>

definition spec_platformName :: "string \<Rightarrow> string" where
  "spec_platformName os = (if os = ''win32'' then ''windows'' else os)"

definition spec_archExt :: "string \<Rightarrow> string option \<Rightarrow> string" where
  "spec_archExt arch armRev =
     (if arch = ''x64'' then ''amd64''
      else if arch = ''ppc64'' then ''ppc64le''
      else if arch = ''arm'' then (if truthy_opt armRev then ''armv'' @ the armRev else ''arm'')
      else arch)"

definition spec_extension :: "string \<Rightarrow> string" where
  "spec_extension os = (if os = ''win32'' then ''.zip'' else ''.tar.gz'')"

definition spec_filename :: "string \<Rightarrow> string \<Rightarrow> string \<Rightarrow> string option \<Rightarrow> string" where
  "spec_filename v os arch armRev =
     ''undock_'' @ v @ ''_'' @ spec_platformName os @ ''_'' @ spec_archExt arch armRev @
     spec_extension os"

text \<open>
  The platform string of the cache key as the specification words it: the revision suffix
  only on an ARM CPU (\<open>arm\<close> or \<open>arm64\<close> are the ARM values of \<open>os.arch()\<close>) whose revision
  is known.
\<close>

definition spec_is_arm :: "string \<Rightarrow> bool" where
  "spec_is_arm arch = (arch = ''arm'' \<or> arch = ''arm64'')"

definition spec_platform :: "string \<Rightarrow> string \<Rightarrow> string option \<Rightarrow> string" where
  "spec_platform os arch armRev =
     os @ ''-'' @ arch @ (if spec_is_arm arch \<and> truthy_opt armRev then ''v'' @ the armRev else '''')"

text \<open>A status the specification counts as success: 2xx.\<close>

definition spec_success_status :: "nat \<Rightarrow> bool" where
  "spec_success_status n = (200 \<le> n \<and> n < 300)"

text \<open>A commit identifier: forty hexadecimal digits, or an abbreviation of at least seven.\<close>

definition spec_commit_sha :: "string \<Rightarrow> bool" where
  "spec_commit_sha s =
     (7 \<le> length s \<and> length s \<le> 40 \<and> list_all (\<lambda>c. c \<in> set ''0123456789abcdef'') s)"

text \<open>The arguments a logged call carries: the platform of a hosted-tool-cache call, the
  key of a call to the GitHub Actions cache.\<close>

fun event_platform :: "event \<Rightarrow> string option" where
  "event_platform (TcFind n v a) = Some a"
| "event_platform (TcCacheDir d n v a) = Some a"
| "event_platform e = None"

fun event_key :: "event \<Rightarrow> string option" where
  "event_key (SaveCache ps k) = Some k"
| "event_key (RestoreCache ps k) = Some k"
| "event_key e = None"

fun is_upload :: "event \<Rightarrow> bool" where
  "is_upload (SaveCache ps k) = True"
| "is_upload e = False"

section \<open>A runner to run the model on\<close>

text \<open>
  A Linux runner with an empty hosted-tool cache and an available, empty GitHub Actions
  cache, where every file operation succeeds. \<open>join_slash\<close> is \<open>path.join\<close> on segments
  that are already normal; \<open>semver_ex\<close> gives the answers of \<open>semver.clean\<close> and
  \<open>semver.valid\<close> on the strings the examples feed them (three versions are valid; the
  empty string and a commit identifier are not); \<open>JSON_parse\<close> knows one document.
\<close>

fun join_slash :: "string list \<Rightarrow> string" where
  "join_slash [] = ''.''"
| "join_slash [x] = x"
| "join_slash (x # y # xs) = x @ ''/'' @ join_slash (y # xs)"

definition semver_ex :: "string \<Rightarrow> string option" where
  "semver_ex s = (if s \<in> set [''1.2.3'', ''2.0.0'', ''2.0.1''] then Some s else None)"

definition sha_ex :: string where
  "sha_ex = ''4f2c1d9a7b3e5860c1d2e3f4a5b6c7d8e9f01234''"

definition body_ex :: string where
  "body_ex = ''{\"latest\": {\"tag_name\": \"v1.2.3\"}, \"1.2.3\": {\"tag_name\": \"v1.2.3\"}, \"2.0.0\": {\"tag_name\": \"v2.0.1\"}, \"nightly\": {\"tag_name\": \"4f2c1d9a7b3e5860c1d2e3f4a5b6c7d8e9f01234\"}}''"

definition manifest_ex :: "string \<rightharpoonup> GitHubRelease" where
  "manifest_ex = map_of
     [(''latest'', \<lparr>tag_name = ''v1.2.3''\<rparr>),
      (''1.2.3'', \<lparr>tag_name = ''v1.2.3''\<rparr>),
      (''2.0.0'', \<lparr>tag_name = ''v2.0.1''\<rparr>),
      (''nightly'', \<lparr>tag_name = sha_ex\<rparr>)]"

definition runner :: world where
  "runner =
     \<lparr>os_platform = ''linux'', os_arch = ''x64'', os_homedir = ''/home/runner'',
      arm_version = None, cache_isFeatureAvailable = True,
      path_join = join_slash, semver_clean = semver_ex, semver_valid = semver_ex,
      JSON_parse = (\<lambda>b. if b = body_ex then Inr manifest_ex else Inl (Raised ''SyntaxError'')),
      fs_existsSync = (\<lambda>t p. False),
      fs_mkdirSync = (\<lambda>t p. Inr ()),
      fs_copyFileSync = (\<lambda>t s d. Inr ()),
      tc_find = (\<lambda>t n v a. Inr ''''),
      tc_cacheDir = (\<lambda>t d n v a. Inr (''/opt/hostedtoolcache/'' @ n @ ''/'' @ v @ ''/'' @ a)),
      tc_downloadTool = (\<lambda>t u. Inr ''/tmp/dl''),
      tc_extractZip = (\<lambda>t f. Inr ''/tmp/ext''),
      tc_extractTar = (\<lambda>t f. Inr ''/tmp/ext''),
      cache_saveCache = (\<lambda>t p k. Inr ()),
      cache_restoreCache = (\<lambda>t p k. Inr None),
      http_get = (\<lambda>t u. Inr \<lparr>statusCode = Some 200, body = body_ex\<rparr>)\<rparr>"

text \<open>The cache object \<open>Install.download\<close> builds on that runner for version 1.2.3.\<close>

definition cache_ex :: "CacheOptsInstall Cache" where
  "cache_ex =
     \<lparr>opts = Install_cacheOpts runner ''1.2.3'' None,
      ghaCacheKey = ''undock-dl-bin-1.2.3-linux-x64'',
      cacheDir = ''/home/runner/.bin/1.2.3/linux-x64'',
      cachePath = ''/home/runner/.bin/1.2.3/linux-x64/undock''\<rparr>"

text \<open>The same object when \<open>Install.download\<close> is called with \<open>ghaNoCache\<close> set.\<close>

definition cache_noGha :: "CacheOptsInstall Cache" where
  "cache_noGha = cache_ex\<lparr>opts := Install_cacheOpts runner ''1.2.3'' (Some True)\<rparr>"

text \<open>Variations: the upload, the restore or the manifest fetch goes wrong; the
  hosted-tool cache has the tool.\<close>

definition runner_upload_fails :: world where
  "runner_upload_fails = runner\<lparr>cache_saveCache := (\<lambda>t p k. Inl (Raised ''upload failed''))\<rparr>"

definition runner_restore_fails :: world where
  "runner_restore_fails =
     runner\<lparr>cache_restoreCache := (\<lambda>t p k. Inl (Raised ''restore failed''))\<rparr>"

definition runner_no_backend :: world where
  "runner_no_backend = runner\<lparr>cache_isFeatureAvailable := False\<rparr>"

definition runner_htc_hit :: world where
  "runner_htc_hit =
     runner\<lparr>tc_find := (\<lambda>t n v a. Inr (''/opt/hostedtoolcache/'' @ n @ ''/'' @ v @ ''/'' @ a))\<rparr>"

definition runner_status :: "nat \<Rightarrow> string \<Rightarrow> world" where
  "runner_status n b = runner\<lparr>http_get := (\<lambda>t u. Inr \<lparr>statusCode = Some n, body = b\<rparr>)\<rparr>"

text \<open>A 64-bit ARM runner.\<close>

definition runner_arm :: world where
  "runner_arm = runner\<lparr>os_arch := ''arm64'', arm_version := Some ''8''\<rparr>"

section \<open>Facts about the model\<close>

lemma util_format_key: "util_format ''%s-%s-%s'' [a, b, c] = a @ ''-'' @ b @ ''-'' @ c"
  by simp

lemma util_format_filename:
  "util_format ''undock_%s_%s_%s%s'' [a, b, c, d] = ''undock_'' @ a @ ''_'' @ b @ ''_'' @ c @ d"
  by simp

lemma util_format_url:
  "util_format ''https://github.com/crazy-max/undock/releases/download/v%s/%s'' [a, b] =
   ''https://github.com/crazy-max/undock/releases/download/v'' @ a @ ''/'' @ b"
  by simp

subsection \<open>Running the cache\<close>

lemma bnd_run:
  "bnd m f t = (case m t of (Inl e, t') \<Rightarrow> (Inl e, t') | (Inr x, t') \<Rightarrow> f x t')"
  by (simp add: bnd_def)

lemma ret_run: "ret x t = (Inr x, t)"
  by (simp add: ret_def)

lemma throw_run: "throw e t = (Inl e, t)"
  by (simp add: throw_def)

lemma call_run: "call ev f t = (f t, t @ [ev])"
  by (simp add: call_def)

lemmas run_simps = bnd_run ret_run throw_run call_run

lemma Cache_copyToCache_run:
  "Cache_copyToCache w c file t =
     (case do_copy w c file t of
        Inl e \<Rightarrow> (Inl e, t @ [ev_copy c file])
      | Inr u \<Rightarrow> (Inr (cachePath c), t @ [ev_copy c file]))"
  by (simp add: Cache_copyToCache_def run_simps split: sum.splits)

lemma Cache_save_run:
  "Cache_save w c file t =
     (case do_copy w c file t of
        Inl e \<Rightarrow> (Inl e, t @ [ev_copy c file])
      | Inr u \<Rightarrow>
          (case do_register w c (t @ [ev_copy c file]) of
             Inl e \<Rightarrow> (Inl e, t @ [ev_copy c file, ev_register w c])
           | Inr htcPath \<Rightarrow>
               if cache_isFeatureAvailable w
               then (case do_upload w c (t @ [ev_copy c file, ev_register w c]) of
                       Inl e \<Rightarrow> (Inl e, t @ [ev_copy c file, ev_register w c, ev_upload c])
                     | Inr u' \<Rightarrow>
                         (Inr (cachePath c), t @ [ev_copy c file, ev_register w c, ev_upload c]))
               else (Inr (cachePath c), t @ [ev_copy c file, ev_register w c])))"
  by (simp add: Cache_save_def Cache_copyToCache_run run_simps split: sum.splits)

lemma Cache_find_run:
  "Cache_find w c t =
     (case do_find w c t of
        Inl e \<Rightarrow> (Inl e, t @ [ev_find w c])
      | Inr htcPath \<Rightarrow>
          if truthy htcPath
          then Cache_copyToCache w c (htc_file c htcPath) (t @ [ev_find w c])
          else if cache_isFeatureAvailable w
          then (case do_restore w c (t @ [ev_find w c]) of
                  Inl e \<Rightarrow> (Inl e, t @ [ev_find w c, ev_restore c])
                | Inr hit \<Rightarrow>
                    if truthy_opt hit
                    then (case do_register w c (t @ [ev_find w c, ev_restore c]) of
                            Inl e \<Rightarrow> (Inl e, t @ [ev_find w c, ev_restore c, ev_register w c])
                          | Inr htcPath' \<Rightarrow>
                              Cache_copyToCache w c (htc_file c htcPath')
                                (t @ [ev_find w c, ev_restore c, ev_register w c]))
                    else (Inr '''', t @ [ev_find w c, ev_restore c]))
          else (Inr '''', t @ [ev_find w c]))"
  by (simp add: Cache_find_def run_simps split: sum.splits)

lemma Cache_constructor_run:
  "Cache_constructor w os t =
     (let dir = path_join w [baseCacheDir os, htcVersion os, Cache_platform w];
          c = \<lparr>opts = os,
               ghaCacheKey = htcName os @ ''-'' @ htcVersion os @ ''-'' @ Cache_platform w,
               cacheDir = dir, cachePath = path_join w [dir, cacheFile os]\<rparr>
      in if fs_existsSync w t dir then (Inr c, t @ [ExistsSync dir])
         else (case fs_mkdirSync w (t @ [ExistsSync dir]) dir of
                 Inl e \<Rightarrow> (Inl e, t @ [ExistsSync dir, MkdirSync dir])
               | Inr u \<Rightarrow> (Inr c, t @ [ExistsSync dir, MkdirSync dir])))"
  by (simp add: Cache_constructor_def Let_def run_simps split: sum.splits)

lemmas world_defs = runner_def runner_arm_def runner_upload_fails_def runner_restore_fails_def
  runner_no_backend_def runner_htc_hit_def runner_status_def

lemmas example_defs = cache_ex_def Install_cacheOpts_def Install_exe_def Cache_platform_def
  truthy_def truthy_opt_def

subsection \<open>Running the installer\<close>

lemma bnd_assoc: "bnd (bnd m f) g = bnd m (\<lambda>x. bnd (f x) g)"
  by (auto simp: bnd_def fun_eq_iff split: sum.splits prod.splits)

lemma bnd_ret_left: "bnd (ret x) f = f x"
  by (simp add: bnd_def ret_def)

lemma bnd_throw_left: "bnd (throw e) f = throw e"
  by (simp add: bnd_def throw_def)

lemma bnd_if: "bnd (if b then m else m') f = (if b then bnd m f else bnd m' f)"
  by simp

lemma Install_getRelease_run:
  "Install_getRelease w dv t =
     (case http_get w t (releasesURL dv) of
        Inl e \<Rightarrow> Inl e
      | Inr resp \<Rightarrow>
          if 400 \<le> http_status resp
          then Inl (Error (''Failed to get Undock releases from '' @ releasesURL dv @
                           '' with status code '' @ string_of_nat (http_status resp) @ '': '' @
                           body resp))
          else (case JSON_parse w (body resp) of
                  Inl e \<Rightarrow> Inl e
                | Inr releases \<Rightarrow>
                    (case js_get releases (version dv) of
                       None \<Rightarrow> Inl (Error (''Cannot find Undock release '' @ version dv @
                                            '' in '' @ releasesURL dv))
                     | Some r \<Rightarrow> Inr r)),
      t @ [HttpGet (releasesURL dv)])"
  by (simp add: Install_getRelease_def run_simps split: sum.splits option.splits)

lemma Install_download_resolve_run:
  "Install_download_resolve w v t =
     (case fst (Install_getRelease w (Install_getDownloadVersion v) t) of
        Inl e \<Rightarrow> Inl e
      | Inr release \<Rightarrow>
          (case member_tag_name release of
             None \<Rightarrow> Inl (TypeError ''undefined.replace'')
           | Some tag \<Rightarrow>
               if truthy_opt (semver_valid w (clean_or_empty w (Install_vspec tag)))
               then Inr (Install_getDownloadVersion v, Install_vspec tag)
               else Inl (Error (''Invalid Undock version '' @ dquote @ Install_vspec tag @
                                dquote @ ''.''))),
      t @ [HttpGet releases_url])"
  by (simp add: Install_download_resolve_def Install_getRelease_run Let_def run_simps
      clean_or_empty_def Install_getDownloadVersion_def split: sum.splits option.splits)

lemma Install_download_run:
  "Install_download w v gha t =
     (case Install_download_resolve w v t of
        (Inl e, t1) \<Rightarrow> (Inl e, t1)
      | (Inr (dv, vspec), t1) \<Rightarrow>
          (case Cache_constructor w (Install_cacheOpts w vspec gha) t1 of
             (Inl e, t2) \<Rightarrow> (Inl e, t2)
           | (Inr c, t2) \<Rightarrow>
               (case Cache_find w c t2 of
                  (Inl e, t3) \<Rightarrow> (Inl e, t3)
                | (Inr found, t3) \<Rightarrow>
                    if truthy found then (Inr found, t3)
                    else
                      (let url = util_format (downloadURL dv) [vspec, Install_filename w vspec]
                       in case tc_downloadTool w t3 url of
                            Inl e \<Rightarrow> (Inl e, t3 @ [TcDownloadTool url])
                          | Inr dl \<Rightarrow>
                              (let ex = (if os_platform w = ''win32''
                                         then TcExtractZip dl else TcExtractTar dl)
                               in case (if os_platform w = ''win32''
                                        then tc_extractZip w (t3 @ [TcDownloadTool url]) dl
                                        else tc_extractTar w (t3 @ [TcDownloadTool url]) dl) of
                                    Inl e \<Rightarrow> (Inl e, t3 @ [TcDownloadTool url, ex])
                                  | Inr ext \<Rightarrow>
                                      Cache_save w c (path_join w [ext, Install_exe w])
                                        (t3 @ [TcDownloadTool url, ex]))))))"
  by (simp add: Install_download_def Let_def run_simps split: sum.splits prod.splits)

lemma Install_download_ghaNoCache_ignored:
  "Install_download w v gha = Install_download w v None"
  by (simp add: Install_download_def Cache_constructor_def Install_cacheOpts_def Cache_find_def
      Cache_save_def Cache_copyToCache_def Let_def bnd_assoc bnd_ret_left bnd_if
      cong: if_cong)

subsection \<open>The version spec\<close>

lemma list_all_eq_replicate:
  "list_all (\<lambda>x. x = a) xs \<Longrightarrow> xs = replicate (length xs) a"
  by (induction xs) auto

lemma strip_v_at_end_replicate:
  "\<exists>n. s = strip_v_at_end s @ replicate n (CHR ''v'')"
proof (induction s)
  case Nil
  show ?case by simp
next
  case (Cons c cs)
  show ?case
  proof (cases "list_all (\<lambda>x. x = CHR ''v'') (c # cs)")
    case True
    from list_all_eq_replicate[OF True]
    have "c # cs = [] @ replicate (length (c # cs)) (CHR ''v'')" by simp
    moreover from True have "strip_v_at_end (c # cs) = []" by simp
    ultimately show ?thesis by metis
  next
    case False
    from Cons obtain n where "cs = strip_v_at_end cs @ replicate n (CHR ''v'')" ..
    then have "c # cs = (c # strip_v_at_end cs) @ replicate n (CHR ''v'')" by simp
    moreover from False have "strip_v_at_end (c # cs) = c # strip_v_at_end cs" by simp
    ultimately show ?thesis by metis
  qed
qed

lemma strip_v_at_end_last:
  "strip_v_at_end s \<noteq> [] \<Longrightarrow> last (strip_v_at_end s) \<noteq> CHR ''v''"
proof (induction s)
  case Nil
  then show ?case by simp
next
  case (Cons c cs)
  show ?case
  proof (cases "list_all (\<lambda>x. x = CHR ''v'') (c # cs)")
    case True with Cons.prems show ?thesis by simp
  next
    case False
    show ?thesis
    proof (cases "strip_v_at_end cs = []")
      case True
      then obtain n where "cs = replicate n (CHR ''v'')" using strip_v_at_end_replicate[of cs] by auto
      with False have "c \<noteq> CHR ''v''" by (auto simp: list_all_iff)
      moreover from False have "strip_v_at_end (c # cs) = c # strip_v_at_end cs" by simp
      ultimately show ?thesis using True by simp
    next
      case F2: False
      from False have "strip_v_at_end (c # cs) = c # strip_v_at_end cs" by simp
      with Cons.IH F2 show ?thesis by simp
    qed
  qed
qed

lemma strip_v_at_end_hd:
  "strip_v_at_end s \<noteq> [] \<Longrightarrow> hd (strip_v_at_end s) = hd s"
  by (cases s) (auto split: if_splits)

text \<open>
  Claim C9. \<open>vspec\<close> gives the same result with and without a leading \<open>v\<close>, for every
  string and so for every version of the form \<open>{major}.{minor}.{patch}{suffix}\<close>;
  \<open>v0.4.1\<close> and \<open>0.4.1\<close> both give \<open>0.4.1\<close>. What it removes is a run of \<open>v\<close> at the
  start and a run of \<open>v\<close> at the end, and the result neither starts nor ends with \<open>v\<close>.
\<close>

theorem Install_vspec_prefix:
  "Install_vspec (CHR ''v'' # s) = Install_vspec s \<and>
   Install_vspec ''v0.4.1'' = ''0.4.1'' \<and> Install_vspec ''0.4.1'' = ''0.4.1'' \<and>
   (\<exists>m n. s = replicate m (CHR ''v'') @ Install_vspec s @ replicate n (CHR ''v'')) \<and>
   \<not> (\<exists>r. Install_vspec s = CHR ''v'' # r) \<and> \<not> (\<exists>r. Install_vspec s = r @ [CHR ''v''])"
proof -
  let ?v = "\<lambda>x. x = CHR ''v''"
  have a: "Install_vspec (CHR ''v'' # s) = Install_vspec s"
    by (simp add: Install_vspec_def)
  have b: "Install_vspec ''v0.4.1'' = ''0.4.1''" "Install_vspec ''0.4.1'' = ''0.4.1''"
    by (simp_all add: Install_vspec_def)
  obtain n where n: "dropWhile ?v s = Install_vspec s @ replicate n (CHR ''v'')"
    using strip_v_at_end_replicate[of "dropWhile ?v s"] by (auto simp: Install_vspec_def)
  have "takeWhile ?v s = replicate (length (takeWhile ?v s)) (CHR ''v'')"
    by (rule replicate_eqI) (auto dest: set_takeWhileD)
  then have "s = replicate (length (takeWhile ?v s)) (CHR ''v'') @ dropWhile ?v s"
    by (metis takeWhile_dropWhile_id)
  with n have c: "\<exists>m n. s = replicate m (CHR ''v'') @ Install_vspec s @ replicate n (CHR ''v'')"
    by metis
  have d: "\<not> (\<exists>r. Install_vspec s = CHR ''v'' # r)"
  proof
    assume "\<exists>r. Install_vspec s = CHR ''v'' # r"
    then obtain r where r: "Install_vspec s = CHR ''v'' # r" ..
    have ne: "dropWhile ?v s \<noteq> []"
    proof
      assume "dropWhile ?v s = []"
      then have "Install_vspec s = strip_v_at_end []"
        unfolding Install_vspec_def by (rule arg_cong)
      with r show False by simp
    qed
    from r have "hd (dropWhile ?v s) = CHR ''v''"
      using strip_v_at_end_hd[of "dropWhile ?v s"] by (simp add: Install_vspec_def)
    moreover from hd_dropWhile[of ?v s, OF ne] have "hd (dropWhile ?v s) \<noteq> CHR ''v''" .
    ultimately show False by simp
  qed
  have e: "\<not> (\<exists>r. Install_vspec s = r @ [CHR ''v''])"
  proof
    assume "\<exists>r. Install_vspec s = r @ [CHR ''v'']"
    then obtain r where r: "Install_vspec s = r @ [CHR ''v'']" ..
    then have "Install_vspec s \<noteq> []" "last (Install_vspec s) = CHR ''v''" by simp_all
    then show False
      using strip_v_at_end_last[of "dropWhile ?v s"] by (simp add: Install_vspec_def)
  qed
  show ?thesis
    apply (intro conjI)
    apply (rule a)
    apply (rule b(1))
    apply (rule b(2))
    apply (rule c)
    apply (rule d)
    apply (rule e)
    done
qed

subsection \<open>The archive name\<close>

text \<open>
  Claim C8. \<open>Install.filename\<close> is the specification's function of the version, the OS,
  the CPU architecture and the ARM revision, and of nothing else:
  \<open>undock_{version}_{platform}_{arch}{ext}\<close> with \<open>windows\<close> and \<open>.zip\<close> on win32, the OS
  name and \<open>.tar.gz\<close> elsewhere, x64 as amd64, ppc64 as ppc64le, arm as \<open>armv{revision}\<close>
  or plain \<open>arm\<close>, any other architecture unchanged. On win32 and x64 the name is
  \<open>undock_{v}_windows_amd64.zip\<close>; on linux and arm with revision 7 it is
  \<open>undock_{v}_linux_armv7.tar.gz\<close>.
\<close>

theorem Install_filename_spec:
  "Install_filename w v = spec_filename v (os_platform w) (os_arch w) (arm_version w) \<and>
   Install_filename (w\<lparr>os_platform := ''win32'', os_arch := ''x64''\<rparr>) v =
     ''undock_'' @ v @ ''_windows_amd64.zip'' \<and>
   Install_filename (w\<lparr>os_platform := ''linux'', os_arch := ''arm'', arm_version := Some ''7''\<rparr>) v =
     ''undock_'' @ v @ ''_linux_armv7.tar.gz''"
  by (simp add: Install_filename_def spec_filename_def spec_platformName_def spec_archExt_def
      spec_extension_def truthy_opt_def truthy_def split: option.splits)


subsection \<open>The platform string\<close>

text \<open>
  Claim C7, as the code has it. The platform string is \<open>{os}-{cpuArch}\<close>, followed by
  \<open>v{armRevision}\<close> exactly when the ARM revision is known (the build variable
  \<open>arm_version\<close> is set and not empty), whatever the CPU architecture is; it equals the
  specification's string whenever the architecture is ARM or the revision is unknown. It
  is a function of the three values alone. The constructor puts it into the cache key and
  the cache directory, and every hosted-tool-cache call and every GitHub Actions cache call
  that \<open>save\<close> and \<open>find\<close> make carries that same platform and that same key.
\<close>

theorem Cache_platform_revision:
  "Cache_platform w =
     os_platform w @ ''-'' @ os_arch w @
     (if truthy_opt (arm_version w) then ''v'' @ the (arm_version w) else '''') \<and>
   (spec_is_arm (os_arch w) \<or> \<not> truthy_opt (arm_version w) \<longrightarrow>
      Cache_platform w = spec_platform (os_platform w) (os_arch w) (arm_version w)) \<and>
   (\<forall>c t'. Cache_constructor w os t = (Inr c, t') \<longrightarrow>
      ghaCacheKey c = htcName os @ ''-'' @ htcVersion os @ ''-'' @ Cache_platform w \<and>
      cacheDir c = path_join w [baseCacheDir os, htcVersion os, Cache_platform w]) \<and>
   (\<forall>e \<in> set (drop (length t) (snd (Cache_save w c src t))).
      event_platform e \<in> {None, Some (Cache_platform w)} \<and>
      event_key e \<in> {None, Some (ghaCacheKey c)}) \<and>
   (\<forall>e \<in> set (drop (length t) (snd (Cache_find w c t))).
      event_platform e \<in> {None, Some (Cache_platform w)} \<and>
      event_key e \<in> {None, Some (ghaCacheKey c)})"
proof (intro conjI)
  show "Cache_platform w =
     os_platform w @ ''-'' @ os_arch w @
     (if truthy_opt (arm_version w) then ''v'' @ the (arm_version w) else '''')"
    by (simp add: Cache_platform_def truthy_opt_def split: option.splits)
  show "spec_is_arm (os_arch w) \<or> \<not> truthy_opt (arm_version w) \<longrightarrow>
      Cache_platform w = spec_platform (os_platform w) (os_arch w) (arm_version w)"
    by (auto simp: Cache_platform_def spec_platform_def truthy_opt_def split: option.splits)
  show "\<forall>c t'. Cache_constructor w os t = (Inr c, t') \<longrightarrow>
      ghaCacheKey c = htcName os @ ''-'' @ htcVersion os @ ''-'' @ Cache_platform w \<and>
      cacheDir c = path_join w [baseCacheDir os, htcVersion os, Cache_platform w]"
    by (auto simp: Cache_constructor_run Let_def split: if_splits sum.splits)
  show "\<forall>e \<in> set (drop (length t) (snd (Cache_save w c src t))).
      event_platform e \<in> {None, Some (Cache_platform w)} \<and>
      event_key e \<in> {None, Some (ghaCacheKey c)}"
    by (simp add: Cache_save_run split: sum.splits)
  show "\<forall>e \<in> set (drop (length t) (snd (Cache_find w c t))).
      event_platform e \<in> {None, Some (Cache_platform w)} \<and>
      event_key e \<in> {None, Some (ghaCacheKey c)}"
    by (simp add: Cache_find_run Cache_copyToCache_run split: sum.splits)
qed

theorem Cache_platform_revision_witness:
  "Cache_platform runner_arm = ''linux-arm64v8'' \<and>
   Cache_platform runner_arm = spec_platform ''linux'' ''arm64'' (Some ''8'') \<and>
   (\<exists>c t'. Cache_constructor runner (Install_cacheOpts runner ''1.2.3'' None) [] = (Inr c, t') \<and>
      ghaCacheKey c = ''undock-dl-bin-1.2.3-linux-x64'' \<and>
      cacheDir c = ''/home/runner/.bin/1.2.3/linux-x64'') \<and>
   ev_register runner cache_ex \<in> set (snd (Cache_save runner cache_ex ''/tmp/ext/undock'' [])) \<and>
   event_platform (ev_register runner cache_ex) \<in> {None, Some (Cache_platform runner)} \<and>
   ev_restore cache_ex \<in> set (snd (Cache_find runner cache_ex [])) \<and>
   event_key (ev_restore cache_ex) \<in> {None, Some (ghaCacheKey cache_ex)}"
proof -
  note arm = Cache_platform_revision
    [where w = runner_arm and os = "Install_cacheOpts runner ''1.2.3'' None" and t = "[]"
      and c = cache_ex and src = "''/tmp/ext/undock''"]
  note x64 = Cache_platform_revision
    [where w = runner and os = "Install_cacheOpts runner ''1.2.3'' None" and t = "[]"
      and c = cache_ex and src = "''/tmp/ext/undock''"]
  note arm1 = arm[THEN conjunct1] and arm2 = arm[THEN conjunct2, THEN conjunct1]
  note x3 = x64[THEN conjunct2, THEN conjunct2, THEN conjunct1]
  note x4 = x64[THEN conjunct2, THEN conjunct2, THEN conjunct2, THEN conjunct1]
  note x5 = x64[THEN conjunct2, THEN conjunct2, THEN conjunct2, THEN conjunct2]
  from arm1 have a: "Cache_platform runner_arm = ''linux-arm64v8''"
    by (simp add: runner_arm_def runner_def truthy_opt_def truthy_def)
  have "spec_is_arm (os_arch runner_arm)"
    by (simp add: spec_is_arm_def runner_arm_def runner_def)
  with arm2 have "Cache_platform runner_arm =
      spec_platform (os_platform runner_arm) (os_arch runner_arm) (arm_version runner_arm)"
    by blast
  then have b: "Cache_platform runner_arm = spec_platform ''linux'' ''arm64'' (Some ''8'')"
    by (simp add: runner_arm_def runner_def)
  obtain c t' where
    ct: "Cache_constructor runner (Install_cacheOpts runner ''1.2.3'' None) [] = (Inr c, t')"
    by (simp add: Cache_constructor_run Let_def runner_def)
  with x3 have "ghaCacheKey c =
      htcName (Install_cacheOpts runner ''1.2.3'' None) @ ''-'' @
      htcVersion (Install_cacheOpts runner ''1.2.3'' None) @ ''-'' @ Cache_platform runner"
    and "cacheDir c = path_join runner
      [baseCacheDir (Install_cacheOpts runner ''1.2.3'' None),
       htcVersion (Install_cacheOpts runner ''1.2.3'' None), Cache_platform runner]"
    by blast+
  then have "ghaCacheKey c = ''undock-dl-bin-1.2.3-linux-x64''"
    and "cacheDir c = ''/home/runner/.bin/1.2.3/linux-x64''"
    by (simp_all add: Install_cacheOpts_def Cache_platform_def runner_def)
  with ct have cc: "\<exists>c t'.
      Cache_constructor runner (Install_cacheOpts runner ''1.2.3'' None) [] = (Inr c, t') \<and>
      ghaCacheKey c = ''undock-dl-bin-1.2.3-linux-x64'' \<and>
      cacheDir c = ''/home/runner/.bin/1.2.3/linux-x64''"
    by blast
  have d1: "ev_register runner cache_ex \<in> set (snd (Cache_save runner cache_ex ''/tmp/ext/undock'' []))"
    by (simp add: Cache_save_run runner_def)
  then have "ev_register runner cache_ex
      \<in> set (drop (length ([]::event list)) (snd (Cache_save runner cache_ex ''/tmp/ext/undock'' [])))"
    by simp
  with x4 have d2: "event_platform (ev_register runner cache_ex) \<in> {None, Some (Cache_platform runner)}"
    by blast
  have e1: "ev_restore cache_ex \<in> set (snd (Cache_find runner cache_ex []))"
    by (simp add: Cache_find_run runner_def truthy_def truthy_opt_def)
  then have "ev_restore cache_ex \<in> set (drop (length ([]::event list)) (snd (Cache_find runner cache_ex [])))"
    by simp
  with x5 have e2: "event_key (ev_restore cache_ex) \<in> {None, Some (ghaCacheKey cache_ex)}"
    by blast
  from a b cc d1 d2 e1 e2 show ?thesis by (intro conjI)
qed

text \<open>
  The claim as stated fails where a revision is known on a CPU that is not ARM: the code
  does not look at the architecture before it appends the suffix.
\<close>

theorem Cache_platform_counterexample:
  "Cache_platform (runner\<lparr>arm_version := Some ''7''\<rparr>) = ''linux-x64v7'' \<and>
   Cache_platform (runner\<lparr>arm_version := Some ''7''\<rparr>) \<noteq> spec_platform ''linux'' ''x64'' (Some ''7'')"
  by (simp add: Cache_platform_def runner_def spec_platform_def spec_is_arm_def truthy_def)


subsection \<open>Saving\<close>

text \<open>
  Claim C1, as the code has it. Where the GitHub Actions cache is available and the local
  copy and the hosted-tool-cache registration succeed, \<open>save\<close> attempts the upload after
  both. If the upload returns, \<open>save\<close> returns the canonical cache path. If the upload
  throws, \<open>save\<close> throws the same error, for nothing catches it; the copy and the
  registration were made before and are not undone: they stay in the log.
\<close>

theorem Cache_save_upload_outcome:
  assumes "cache_isFeatureAvailable w"
    and "do_copy w c src t = Inr ()"
    and "do_register w c (t @ [ev_copy c src]) = Inr htcPath"
  shows "Cache_save w c src t =
     (case do_upload w c (t @ [ev_copy c src, ev_register w c]) of
        Inl e \<Rightarrow> Inl e
      | Inr u \<Rightarrow> Inr (cachePath c),
      t @ [ev_copy c src, ev_register w c, ev_upload c])"
  using assms by (simp add: Cache_save_run split: sum.splits)

theorem Cache_save_upload_outcome_witness:
  "Cache_save runner_upload_fails cache_ex ''/tmp/ext/undock'' [] =
     (Inl (Raised ''upload failed''),
      [ev_copy cache_ex ''/tmp/ext/undock'', ev_register runner_upload_fails cache_ex,
       ev_upload cache_ex]) \<and>
   Cache_save runner cache_ex ''/tmp/ext/undock'' [] =
     (Inr ''/home/runner/.bin/1.2.3/linux-x64/undock'',
      [ev_copy cache_ex ''/tmp/ext/undock'', ev_register runner cache_ex, ev_upload cache_ex])"
proof -
  have f1: "cache_isFeatureAvailable runner_upload_fails"
    and f2: "do_copy runner_upload_fails cache_ex ''/tmp/ext/undock'' [] = Inr ()"
    and f3: "do_register runner_upload_fails cache_ex ([] @ [ev_copy cache_ex ''/tmp/ext/undock'']) =
      Inr ''/opt/hostedtoolcache/undock-dl-bin/1.2.3/linux-x64''"
    by (simp_all add: world_defs example_defs)
  have g1: "cache_isFeatureAvailable runner"
    and g2: "do_copy runner cache_ex ''/tmp/ext/undock'' [] = Inr ()"
    and g3: "do_register runner cache_ex ([] @ [ev_copy cache_ex ''/tmp/ext/undock'']) =
      Inr ''/opt/hostedtoolcache/undock-dl-bin/1.2.3/linux-x64''"
    by (simp_all add: world_defs example_defs)
  from Cache_save_upload_outcome[OF f1 f2 f3]
  have a: "Cache_save runner_upload_fails cache_ex ''/tmp/ext/undock'' [] =
     (Inl (Raised ''upload failed''),
      [ev_copy cache_ex ''/tmp/ext/undock'', ev_register runner_upload_fails cache_ex,
       ev_upload cache_ex])"
    by (simp add: runner_upload_fails_def runner_def)
  from Cache_save_upload_outcome[OF g1 g2 g3]
  have b: "Cache_save runner cache_ex ''/tmp/ext/undock'' [] =
     (Inr ''/home/runner/.bin/1.2.3/linux-x64/undock'',
      [ev_copy cache_ex ''/tmp/ext/undock'', ev_register runner cache_ex, ev_upload cache_ex])"
    by (simp add: runner_def cache_ex_def)
  from a b show ?thesis by (rule conjI)
qed

text \<open>
  The claim as stated fails: on a runner whose upload throws, \<open>save\<close> does not return the
  cache path.
\<close>

theorem Cache_save_upload_counterexample:
  "cache_isFeatureAvailable runner_upload_fails \<and>
   fst (Cache_save runner_upload_fails cache_ex ''/tmp/ext/undock'' []) = Inl (Raised ''upload failed'') \<and>
   fst (Cache_save runner_upload_fails cache_ex ''/tmp/ext/undock'' []) \<noteq> Inr (cachePath cache_ex)"
  by (simp add: Cache_save_run runner_upload_fails_def runner_def)

subsection \<open>Finding\<close>

text \<open>
  Claim C2, as the code has it. \<open>find\<close> returns the empty string when the hosted-tool
  cache has no entry and the GitHub Actions cache is unavailable or reports no hit. An
  exception thrown by any cache layer during \<open>find\<close> (the hosted-tool-cache lookup, the
  restore, the registration of the restored directory, the copy into the cache path) is
  not turned into a miss: \<open>find\<close> throws it to its caller.
\<close>

theorem Cache_find_miss_or_raise:
  "(do_find w c t = Inr '''' \<and> \<not> cache_isFeatureAvailable w \<longrightarrow>
      Cache_find w c t = (Inr '''', t @ [ev_find w c])) \<and>
   (do_find w c t = Inr '''' \<and> cache_isFeatureAvailable w \<and>
    do_restore w c (t @ [ev_find w c]) = Inr hit \<and> \<not> truthy_opt hit \<longrightarrow>
      Cache_find w c t = (Inr '''', t @ [ev_find w c, ev_restore c])) \<and>
   (do_find w c t = Inl e \<longrightarrow> Cache_find w c t = (Inl e, t @ [ev_find w c])) \<and>
   (do_find w c t = Inr '''' \<and> cache_isFeatureAvailable w \<and>
    do_restore w c (t @ [ev_find w c]) = Inl e \<longrightarrow>
      Cache_find w c t = (Inl e, t @ [ev_find w c, ev_restore c])) \<and>
   (do_find w c t = Inr p \<and> truthy p \<and>
    do_copy w c (htc_file c p) (t @ [ev_find w c]) = Inl e \<longrightarrow>
      Cache_find w c t = (Inl e, t @ [ev_find w c, ev_copy c (htc_file c p)])) \<and>
   (do_find w c t = Inr '''' \<and> cache_isFeatureAvailable w \<and>
    do_restore w c (t @ [ev_find w c]) = Inr hit \<and> truthy_opt hit \<and>
    do_register w c (t @ [ev_find w c, ev_restore c]) = Inl e \<longrightarrow>
      Cache_find w c t = (Inl e, t @ [ev_find w c, ev_restore c, ev_register w c])) \<and>
   (do_find w c t = Inr '''' \<and> cache_isFeatureAvailable w \<and>
    do_restore w c (t @ [ev_find w c]) = Inr hit \<and> truthy_opt hit \<and>
    do_register w c (t @ [ev_find w c, ev_restore c]) = Inr p \<and>
    do_copy w c (htc_file c p) (t @ [ev_find w c, ev_restore c, ev_register w c]) = Inl e \<longrightarrow>
      Cache_find w c t =
        (Inl e, t @ [ev_find w c, ev_restore c, ev_register w c, ev_copy c (htc_file c p)]))"
  by (simp add: Cache_find_run Cache_copyToCache_run truthy_def)
theorem Cache_find_miss_or_raise_witness:
  "Cache_find runner_no_backend cache_ex [] = (Inr '''', [ev_find runner_no_backend cache_ex]) \<and>
   Cache_find runner cache_ex [] = (Inr '''', [ev_find runner cache_ex, ev_restore cache_ex]) \<and>
   Cache_find (runner\<lparr>tc_find := (\<lambda>t n v a. Inl (Raised ''find failed''))\<rparr>) cache_ex [] =
     (Inl (Raised ''find failed''), [ev_find runner cache_ex]) \<and>
   Cache_find runner_restore_fails cache_ex [] =
     (Inl (Raised ''restore failed''), [ev_find runner cache_ex, ev_restore cache_ex]) \<and>
   Cache_find (runner_htc_hit\<lparr>fs_copyFileSync := (\<lambda>t s d. Inl (Raised ''copy failed''))\<rparr>)
       cache_ex [] =
     (Inl (Raised ''copy failed''),
      [ev_find runner cache_ex,
       ev_copy cache_ex ''/opt/hostedtoolcache/undock-dl-bin/1.2.3/linux-x64/undock'']) \<and>
   Cache_find (runner\<lparr>cache_restoreCache := (\<lambda>t p k. Inr (Some k)),
                       tc_cacheDir := (\<lambda>t d n v a. Inl (Raised ''register failed''))\<rparr>)
       cache_ex [] =
     (Inl (Raised ''register failed''),
      [ev_find runner cache_ex, ev_restore cache_ex, ev_register runner cache_ex]) \<and>
   Cache_find (runner\<lparr>cache_restoreCache := (\<lambda>t p k. Inr (Some k)),
                       fs_copyFileSync := (\<lambda>t s d. Inl (Raised ''copy failed''))\<rparr>)
       cache_ex [] =
     (Inl (Raised ''copy failed''),
      [ev_find runner cache_ex, ev_restore cache_ex, ev_register runner cache_ex,
       ev_copy cache_ex ''/opt/hostedtoolcache/undock-dl-bin/1.2.3/linux-x64/undock''])"
proof (intro conjI)
  show "Cache_find runner_no_backend cache_ex [] = (Inr '''', [ev_find runner_no_backend cache_ex])"
    using Cache_find_miss_or_raise[where w = runner_no_backend and c = cache_ex and t = "[]"]
    by (simp add: world_defs example_defs)
  show "Cache_find runner cache_ex [] = (Inr '''', [ev_find runner cache_ex, ev_restore cache_ex])"
    using Cache_find_miss_or_raise[where w = runner and c = cache_ex and t = "[]" and hit = None]
    by (simp add: world_defs example_defs)
  show "Cache_find (runner\<lparr>tc_find := (\<lambda>t n v a. Inl (Raised ''find failed''))\<rparr>) cache_ex [] =
     (Inl (Raised ''find failed''), [ev_find runner cache_ex])"
    using Cache_find_miss_or_raise
      [where w = "runner\<lparr>tc_find := (\<lambda>t n v a. Inl (Raised ''find failed''))\<rparr>"
         and c = cache_ex and t = "[]" and e = "Raised ''find failed''"]
    by (simp add: world_defs example_defs)
  show "Cache_find runner_restore_fails cache_ex [] =
     (Inl (Raised ''restore failed''), [ev_find runner cache_ex, ev_restore cache_ex])"
    using Cache_find_miss_or_raise
      [where w = runner_restore_fails and c = cache_ex and t = "[]" and e = "Raised ''restore failed''"]
    by (simp add: world_defs example_defs)
  show "Cache_find (runner_htc_hit\<lparr>fs_copyFileSync := (\<lambda>t s d. Inl (Raised ''copy failed''))\<rparr>)
       cache_ex [] =
     (Inl (Raised ''copy failed''),
      [ev_find runner cache_ex,
       ev_copy cache_ex ''/opt/hostedtoolcache/undock-dl-bin/1.2.3/linux-x64/undock''])"
    using Cache_find_miss_or_raise
      [where w = "runner_htc_hit\<lparr>fs_copyFileSync := (\<lambda>t s d. Inl (Raised ''copy failed''))\<rparr>"
         and c = cache_ex and t = "[]" and e = "Raised ''copy failed''"
         and p = "''/opt/hostedtoolcache/undock-dl-bin/1.2.3/linux-x64''"]
    by (simp add: world_defs example_defs)
  show "Cache_find (runner\<lparr>cache_restoreCache := (\<lambda>t p k. Inr (Some k)),
                       tc_cacheDir := (\<lambda>t d n v a. Inl (Raised ''register failed''))\<rparr>)
       cache_ex [] =
     (Inl (Raised ''register failed''),
      [ev_find runner cache_ex, ev_restore cache_ex, ev_register runner cache_ex])"
    using Cache_find_miss_or_raise
      [where w = "runner\<lparr>cache_restoreCache := (\<lambda>t p k. Inr (Some k)),
                       tc_cacheDir := (\<lambda>t d n v a. Inl (Raised ''register failed''))\<rparr>"
         and c = cache_ex and t = "[]" and e = "Raised ''register failed''"
         and hit = "Some ''undock-dl-bin-1.2.3-linux-x64''"]
    by (simp add: world_defs example_defs)
  show "Cache_find (runner\<lparr>cache_restoreCache := (\<lambda>t p k. Inr (Some k)),
                       fs_copyFileSync := (\<lambda>t s d. Inl (Raised ''copy failed''))\<rparr>)
       cache_ex [] =
     (Inl (Raised ''copy failed''),
      [ev_find runner cache_ex, ev_restore cache_ex, ev_register runner cache_ex,
       ev_copy cache_ex ''/opt/hostedtoolcache/undock-dl-bin/1.2.3/linux-x64/undock''])"
    using Cache_find_miss_or_raise
      [where w = "runner\<lparr>cache_restoreCache := (\<lambda>t p k. Inr (Some k)),
                       fs_copyFileSync := (\<lambda>t s d. Inl (Raised ''copy failed''))\<rparr>"
         and c = cache_ex and t = "[]" and e = "Raised ''copy failed''"
         and hit = "Some ''undock-dl-bin-1.2.3-linux-x64''"
         and p = "''/opt/hostedtoolcache/undock-dl-bin/1.2.3/linux-x64''"]
    by (simp add: world_defs example_defs)
qed

text \<open>The claim as stated fails: a restore that throws makes \<open>find\<close> throw.\<close>

theorem Cache_find_raise_counterexample:
  "fst (Cache_find runner_restore_fails cache_ex []) = Inl (Raised ''restore failed'') \<and>
   fst (Cache_find runner_restore_fails cache_ex []) \<noteq> Inr ''''"
  by (simp add: Cache_find_run runner_restore_fails_def runner_def truthy_def)

subsection \<open>The flag that disables the GitHub Actions cache\<close>

text \<open>
  Claim C3 fails on the code. \<open>Install.download\<close> documents \<open>ghaNoCache\<close> as disabling
  the GitHub Actions cache and passes it to the constructor, but \<open>Cache\<close> never reads it:
  on a runner with the cache available, the cache object built with the flag set still
  uploads, in \<open>save\<close> called directly and in a whole download.
\<close>

theorem Cache_save_ghaNoCache_uploads:
  "ghaNoCache (opts cache_noGha) = Some True \<and>
   Cache_save runner cache_noGha ''/tmp/ext/undock'' [] =
     (Inr ''/home/runner/.bin/1.2.3/linux-x64/undock'',
      [CopyFileSync ''/tmp/ext/undock'' ''/home/runner/.bin/1.2.3/linux-x64/undock'',
       TcCacheDir ''/home/runner/.bin/1.2.3/linux-x64'' ''undock-dl-bin'' ''1.2.3'' ''linux-x64'',
       SaveCache [''/home/runner/.bin/1.2.3/linux-x64''] ''undock-dl-bin-1.2.3-linux-x64'']) \<and>
   Cache_constructor runner (Install_cacheOpts runner ''1.2.3'' (Some True)) [] =
     (Inr cache_noGha,
      [ExistsSync ''/home/runner/.bin/1.2.3/linux-x64'', MkdirSync ''/home/runner/.bin/1.2.3/linux-x64'']) \<and>
   snd (Install_download runner ''latest'' (Some True) []) =
     [HttpGet ''https://raw.githubusercontent.com/docker/actions-toolkit/main/.github/undock-releases.json'',
      ExistsSync ''/home/runner/.bin/1.2.3/linux-x64'',
      MkdirSync ''/home/runner/.bin/1.2.3/linux-x64'',
      TcFind ''undock-dl-bin'' ''1.2.3'' ''linux-x64'',
      RestoreCache [''/home/runner/.bin/1.2.3/linux-x64''] ''undock-dl-bin-1.2.3-linux-x64'',
      TcDownloadTool ''https://github.com/crazy-max/undock/releases/download/v1.2.3/undock_1.2.3_linux_amd64.tar.gz'',
      TcExtractTar ''/tmp/dl'',
      CopyFileSync ''/tmp/ext/undock'' ''/home/runner/.bin/1.2.3/linux-x64/undock'',
      TcCacheDir ''/home/runner/.bin/1.2.3/linux-x64'' ''undock-dl-bin'' ''1.2.3'' ''linux-x64'',
      SaveCache [''/home/runner/.bin/1.2.3/linux-x64''] ''undock-dl-bin-1.2.3-linux-x64'']"
proof (intro conjI)
  show "ghaNoCache (opts cache_noGha) = Some True"
    by (simp add: cache_noGha_def Install_cacheOpts_def)
  show "Cache_save runner cache_noGha ''/tmp/ext/undock'' [] =
     (Inr ''/home/runner/.bin/1.2.3/linux-x64/undock'',
      [CopyFileSync ''/tmp/ext/undock'' ''/home/runner/.bin/1.2.3/linux-x64/undock'',
       TcCacheDir ''/home/runner/.bin/1.2.3/linux-x64'' ''undock-dl-bin'' ''1.2.3'' ''linux-x64'',
       SaveCache [''/home/runner/.bin/1.2.3/linux-x64''] ''undock-dl-bin-1.2.3-linux-x64''])"
    by (simp add: Cache_save_run cache_noGha_def world_defs example_defs)
  show "Cache_constructor runner (Install_cacheOpts runner ''1.2.3'' (Some True)) [] =
     (Inr cache_noGha,
      [ExistsSync ''/home/runner/.bin/1.2.3/linux-x64'', MkdirSync ''/home/runner/.bin/1.2.3/linux-x64''])"
    by (simp add: Cache_constructor_run Let_def cache_noGha_def world_defs example_defs)
  show "snd (Install_download runner ''latest'' (Some True) []) =
     [HttpGet ''https://raw.githubusercontent.com/docker/actions-toolkit/main/.github/undock-releases.json'',
      ExistsSync ''/home/runner/.bin/1.2.3/linux-x64'',
      MkdirSync ''/home/runner/.bin/1.2.3/linux-x64'',
      TcFind ''undock-dl-bin'' ''1.2.3'' ''linux-x64'',
      RestoreCache [''/home/runner/.bin/1.2.3/linux-x64''] ''undock-dl-bin-1.2.3-linux-x64'',
      TcDownloadTool ''https://github.com/crazy-max/undock/releases/download/v1.2.3/undock_1.2.3_linux_amd64.tar.gz'',
      TcExtractTar ''/tmp/dl'',
      CopyFileSync ''/tmp/ext/undock'' ''/home/runner/.bin/1.2.3/linux-x64/undock'',
      TcCacheDir ''/home/runner/.bin/1.2.3/linux-x64'' ''undock-dl-bin'' ''1.2.3'' ''linux-x64'',
      SaveCache [''/home/runner/.bin/1.2.3/linux-x64''] ''undock-dl-bin-1.2.3-linux-x64'']"
    by (simp add: Install_download_run Install_download_resolve_run Install_getRelease_run
        Install_getDownloadVersion_def Install_vspec_def Install_filename_def http_status_def
        js_get_def member_tag_name_def manifest_ex_def semver_ex_def body_ex_def clean_or_empty_def
        Cache_constructor_run Cache_find_run Cache_save_run Cache_copyToCache_run
        Let_def world_defs example_defs)
qed


subsection \<open>Resolving the version\<close>

lemma Install_vspec_Cons_v: "Install_vspec (CHR ''v'' # s) = Install_vspec s"
  by (simp add: Install_vspec_def)

lemma string_of_nat_404: "string_of_nat 404 = ''404''"
  by (simp add: string_of_nat.simps digit_char_def)

lemma sublist_mid: "sublist b (a @ b @ c)"
  unfolding sublist_def by (rule exI[of _ a], rule exI[of _ c], rule refl)

lemma bnd_extends:
  assumes "\<And>t. \<exists>r. snd (m t) = t @ r" and "\<And>x t. \<exists>r. snd (f x t) = t @ r"
  shows "\<exists>r. snd (bnd m f t) = t @ r"
proof (cases "m t")
  case (Pair res t1)
  from assms(1)[of t] Pair obtain r1 where r1: "t1 = t @ r1" by auto
  show ?thesis
  proof (cases res)
    case (Inl e)
    with Pair r1 show ?thesis by (simp add: bnd_run)
  next
    case (Inr x)
    from assms(2)[of x t1] obtain r2 where "snd (f x t1) = t1 @ r2" ..
    with Pair Inr r1 show ?thesis by (simp add: bnd_run)
  qed
qed

lemma Cache_constructor_extends: "\<exists>r. snd (Cache_constructor w os t) = t @ r"
  by (simp add: Cache_constructor_run Let_def split: sum.splits)

lemma Cache_find_extends: "\<exists>r. snd (Cache_find w c t) = t @ r"
  by (simp add: Cache_find_run Cache_copyToCache_run split: sum.splits)

lemma Cache_save_extends: "\<exists>r. snd (Cache_save w c src t) = t @ r"
  by (simp add: Cache_save_run split: sum.splits)

lemma call_extends: "\<exists>r. snd (call ev f t) = t @ r"
  by (simp add: call_run)

lemma ret_extends: "\<exists>r. snd (ret x t) = t @ r"
  by (simp add: ret_run)

lemma if_extends:
  assumes "\<And>t. \<exists>r. snd (a t) = t @ r" and "\<And>t. \<exists>r. snd (b t) = t @ r"
  shows "\<exists>r. snd ((if c then a else b) t) = t @ r"
  using assms by simp

lemma Install_download_starts_with_fetch:
  "\<exists>rest. snd (Install_download w v gha t) = t @ HttpGet releases_url # rest"
proof -
  let ?rest = "\<lambda>(dv, vspec).
     bnd (Cache_constructor w (Install_cacheOpts w vspec gha)) (\<lambda>installCache.
     bnd (Cache_find w installCache) (\<lambda>cacheFoundPath.
     if truthy cacheFoundPath then ret cacheFoundPath
     else
       (let url = util_format (downloadURL dv) [vspec, Install_filename w vspec]
        in bnd (call (TcDownloadTool url) (\<lambda>t. tc_downloadTool w t url)) (\<lambda>htcDownloadPath.
           bnd (if os_platform w = ''win32''
                then call (TcExtractZip htcDownloadPath) (\<lambda>t. tc_extractZip w t htcDownloadPath)
                else call (TcExtractTar htcDownloadPath) (\<lambda>t. tc_extractTar w t htcDownloadPath))
             (\<lambda>htcExtPath.
           bnd (Cache_save w installCache (path_join w [htcExtPath, Install_exe w]))
             (\<lambda>cacheSavePath. ret cacheSavePath))))))"
  have rest: "\<exists>r. snd (?rest x t1) = t1 @ r" for x :: "DownloadVersion \<times> string" and t1
    unfolding split_def Let_def
    by (intro bnd_extends if_extends Cache_constructor_extends Cache_find_extends
        Cache_save_extends call_extends ret_extends)
  have d: "Install_download w v gha = bnd (Install_download_resolve w v) ?rest"
    by (simp add: Install_download_def)
  have s: "snd (Install_download_resolve w v t) = t @ [HttpGet releases_url]"
    by (simp add: Install_download_resolve_run)
  show ?thesis
  proof (cases "Install_download_resolve w v t")
    case (Pair res t1)
    with s have t1: "t1 = t @ [HttpGet releases_url]" by simp
    show ?thesis
    proof (cases res)
      case (Inl e)
      with Pair t1 show ?thesis by (simp add: d bnd_run)
    next
      case (Inr x)
      from rest[of x t1] obtain r where "snd (?rest x t1) = t1 @ r" ..
      with Pair Inr t1 show ?thesis by (simp add: d bnd_run)
    qed
  qed
qed

text \<open>
  Claim C4, as the code has it. For every requested version, a concrete semantic version
  included, \<open>Install.download\<close> starts by fetching the release manifest, and that is the
  only call its resolution makes. When the resolution succeeds, the manifest has an entry
  for the requested version and the resolved version spec is the normalized \<open>tag_name\<close> of
  that entry; it is the normalized requested version when the tag is the requested version
  with or without a leading \<open>v\<close>.
\<close>

theorem Install_download_resolve_manifest:
  "snd (Install_download_resolve w v t) = t @ [HttpGet releases_url] \<and>
   (\<exists>rest. snd (Install_download w v gha t) = t @ HttpGet releases_url # rest) \<and>
   (\<forall>dv vs. fst (Install_download_resolve w v t) = Inr (dv, vs) \<longrightarrow>
      (\<exists>resp releases r.
         http_get w t releases_url = Inr resp \<and> http_status resp < 400 \<and>
         JSON_parse w (body resp) = Inr releases \<and> releases v = Some r \<and>
         dv = Install_getDownloadVersion v \<and> vs = Install_vspec (tag_name r) \<and>
         (tag_name r = v \<or> tag_name r = CHR ''v'' # v \<longrightarrow> vs = Install_vspec v)))"
proof (intro conjI allI impI)
  show "snd (Install_download_resolve w v t) = t @ [HttpGet releases_url]"
    by (simp add: Install_download_resolve_run)
  show "\<exists>rest. snd (Install_download w v gha t) = t @ HttpGet releases_url # rest"
    by (rule Install_download_starts_with_fetch)
next
  fix dv vs
  assume ok: "fst (Install_download_resolve w v t) = Inr (dv, vs)"
  then obtain rel where rel: "fst (Install_getRelease w (Install_getDownloadVersion v) t) = Inr rel"
    by (auto simp: Install_download_resolve_run split: sum.splits)
  with ok obtain tag where tag: "member_tag_name rel = Some tag"
    and dv: "dv = Install_getDownloadVersion v" and vs: "vs = Install_vspec tag"
    by (auto simp: Install_download_resolve_run split: option.splits if_splits)
  from tag obtain r where r: "rel = Own r" "tag = tag_name r"
    by (auto simp: member_tag_name_def split: js_member.splits)
  from rel r obtain resp releases where
    "http_get w t releases_url = Inr resp" "http_status resp < 400"
    "JSON_parse w (body resp) = Inr releases" "releases v = Some r"
    by (auto simp: Install_getRelease_run Install_getDownloadVersion_def js_get_def
        split: sum.splits if_splits option.splits)
  moreover have "tag_name r = v \<or> tag_name r = CHR ''v'' # v \<longrightarrow> vs = Install_vspec v"
    using vs r by (auto simp: Install_vspec_Cons_v)
  ultimately show "\<exists>resp releases r.
         http_get w t releases_url = Inr resp \<and> http_status resp < 400 \<and>
         JSON_parse w (body resp) = Inr releases \<and> releases v = Some r \<and>
         dv = Install_getDownloadVersion v \<and> vs = Install_vspec (tag_name r) \<and>
         (tag_name r = v \<or> tag_name r = CHR ''v'' # v \<longrightarrow> vs = Install_vspec v)"
    using dv vs r by blast
qed

lemma resolve_latest:
  "Install_download_resolve runner ''latest'' [] =
     (Inr (Install_getDownloadVersion ''latest'', ''1.2.3''), [HttpGet releases_url])"
  by (simp add: Install_download_resolve_run Install_getRelease_run
      Install_getDownloadVersion_def Install_vspec_def http_status_def
      js_get_def member_tag_name_def manifest_ex_def semver_ex_def clean_or_empty_def
      world_defs example_defs)

lemma resolve_2_0_0:
  "Install_download_resolve runner ''2.0.0'' [] =
     (Inr (Install_getDownloadVersion ''2.0.0'', ''2.0.1''), [HttpGet releases_url])"
  by (simp add: Install_download_resolve_run Install_getRelease_run
      Install_getDownloadVersion_def Install_vspec_def http_status_def
      js_get_def member_tag_name_def manifest_ex_def semver_ex_def clean_or_empty_def
      world_defs example_defs)

text \<open>
  The claim as stated fails for the concrete version 2.0.0: the manifest is fetched (a 404
  makes the resolution fail), and the version spec comes from the manifest's tag, here
  2.0.1, not from the requested version.
\<close>

theorem Install_download_resolve_counterexample:
  "semver_valid runner ''2.0.0'' = Some ''2.0.0'' \<and>
   Install_download_resolve (runner_status 404 ''Not Found'') ''2.0.0'' [] =
     (Inl (Error ''Failed to get Undock releases from https://raw.githubusercontent.com/docker/actions-toolkit/main/.github/undock-releases.json with status code 404: Not Found''),
      [HttpGet releases_url]) \<and>
   Install_download_resolve runner ''2.0.0'' [] =
     (Inr (Install_getDownloadVersion ''2.0.0'', ''2.0.1''), [HttpGet releases_url]) \<and>
   Install_vspec ''2.0.0'' = ''2.0.0''"
proof (intro conjI)
  show "semver_valid runner ''2.0.0'' = Some ''2.0.0''"
    by (simp add: runner_def semver_ex_def)
  show "Install_download_resolve (runner_status 404 ''Not Found'') ''2.0.0'' [] =
     (Inl (Error ''Failed to get Undock releases from https://raw.githubusercontent.com/docker/actions-toolkit/main/.github/undock-releases.json with status code 404: Not Found''),
      [HttpGet releases_url])"
    by (simp add: Install_download_resolve_run Install_getRelease_run
        Install_getDownloadVersion_def http_status_def string_of_nat_404 world_defs)
  show "Install_download_resolve runner ''2.0.0'' [] =
     (Inr (Install_getDownloadVersion ''2.0.0'', ''2.0.1''), [HttpGet releases_url])"
    by (rule resolve_2_0_0)
  show "Install_vspec ''2.0.0'' = ''2.0.0''"
    by (simp add: Install_vspec_def)
qed


lemma resolve_1_2_3:
  "Install_download_resolve runner ''1.2.3'' [] =
     (Inr (Install_getDownloadVersion ''1.2.3'', ''1.2.3''), [HttpGet releases_url])"
  by (simp add: Install_download_resolve_run Install_getRelease_run
      Install_getDownloadVersion_def Install_vspec_def http_status_def
      js_get_def member_tag_name_def manifest_ex_def semver_ex_def clean_or_empty_def
      world_defs example_defs)

theorem Install_download_resolve_manifest_witness:
  "fst (Install_download_resolve runner ''1.2.3'' []) =
     Inr (Install_getDownloadVersion ''1.2.3'', ''1.2.3'') \<and>
   snd (Install_download_resolve runner ''1.2.3'' []) = [HttpGet releases_url] \<and>
   (\<exists>resp releases r.
      http_get runner [] releases_url = Inr resp \<and> http_status resp < 400 \<and>
      JSON_parse runner (body resp) = Inr releases \<and> releases ''1.2.3'' = Some r \<and>
      ''1.2.3'' = Install_vspec (tag_name r))"
proof -
  note T = Install_download_resolve_manifest
    [where w = runner and v = "''1.2.3''" and t = "[]" and gha = None]
  have ev: "fst (Install_download_resolve runner ''1.2.3'' []) =
      Inr (Install_getDownloadVersion ''1.2.3'', ''1.2.3'')"
    by (simp add: resolve_1_2_3)
  from T have s: "snd (Install_download_resolve runner ''1.2.3'' []) = [] @ [HttpGet releases_url]"
    by (rule conjunct1)
  from T[THEN conjunct2, THEN conjunct2] ev
  have "\<exists>resp releases r.
      http_get runner [] releases_url = Inr resp \<and> http_status resp < 400 \<and>
      JSON_parse runner (body resp) = Inr releases \<and> releases ''1.2.3'' = Some r \<and>
      ''1.2.3'' = Install_vspec (tag_name r)"
    by blast
  with ev s show ?thesis by simp
qed

text \<open>
  Claim C5, as the code has it. When the manifest fetch returns a status of 400 or above (a
  missing or zero status counts as 500), \<open>getRelease\<close> throws an error whose message
  contains the releases URL and the status code. When the status is below 400 and the
  manifest has no entry for the requested version, which is not the name of a member that
  every object inherits, it throws the not-found error. An entry of the manifest that it
  returns is the entry for the requested version; and for a requested version that is not
  the name of an inherited member, whatever it returns is that entry of a manifest fetched
  with a status below 400. What it returns for the name of an inherited member that the
  manifest lacks is left open here. A 404 for version 9.9.9 always throws.
\<close>

theorem Install_getRelease_errors:
  "(http_get w t (releasesURL dv) = Inr resp \<and> 400 \<le> http_status resp \<longrightarrow>
      (\<exists>msg. fst (Install_getRelease w dv t) = Inl (Error msg) \<and>
             sublist (releasesURL dv) msg \<and> sublist (string_of_nat (http_status resp)) msg)) \<and>
   (http_get w t (releasesURL dv) = Inr resp \<and> http_status resp < 400 \<and>
    JSON_parse w (body resp) = Inr releases \<and> releases (version dv) = None \<and>
    version dv \<notin> set Object_prototype \<longrightarrow>
      fst (Install_getRelease w dv t) =
        Inl (Error (''Cannot find Undock release '' @ version dv @ '' in '' @ releasesURL dv))) \<and>
   (fst (Install_getRelease w dv t) = Inr (Own r) \<longrightarrow>
      (\<exists>resp' releases'.
         http_get w t (releasesURL dv) = Inr resp' \<and> http_status resp' < 400 \<and>
         JSON_parse w (body resp') = Inr releases' \<and> releases' (version dv) = Some r)) \<and>
   (http_get w t releases_url = Inr resp \<and> statusCode resp = Some 404 \<longrightarrow>
      (\<exists>msg. fst (Install_getRelease w (Install_getDownloadVersion ''9.9.9'') t) = Inl (Error msg) \<and>
             sublist releases_url msg \<and> sublist ''404'' msg)) \<and>
   (version dv \<notin> set Object_prototype \<and> fst (Install_getRelease w dv t) = Inr m \<longrightarrow>
      (\<exists>resp' releases' r'.
         m = Own r' \<and>
         http_get w t (releasesURL dv) = Inr resp' \<and> http_status resp' < 400 \<and>
         JSON_parse w (body resp') = Inr releases' \<and> releases' (version dv) = Some r'))"
proof (intro conjI impI)
  assume a: "http_get w t (releasesURL dv) = Inr resp \<and> 400 \<le> http_status resp"
  let ?msg = "(''Failed to get Undock releases from '' @ releasesURL dv @
               '' with status code '' @ string_of_nat (http_status resp) @ '': '' @ body resp)"
  from a have "fst (Install_getRelease w dv t) = Inl (Error ?msg)"
    by (simp add: Install_getRelease_run)
  moreover have "sublist (releasesURL dv) ?msg"
    by (rule sublist_mid)
  moreover have "sublist (string_of_nat (http_status resp))
      ((''Failed to get Undock releases from '' @ releasesURL dv @ '' with status code '') @
       string_of_nat (http_status resp) @ ('': '' @ body resp))"
    by (rule sublist_mid)
  then have "sublist (string_of_nat (http_status resp)) ?msg" by simp
  ultimately show "\<exists>msg. fst (Install_getRelease w dv t) = Inl (Error msg) \<and>
      sublist (releasesURL dv) msg \<and> sublist (string_of_nat (http_status resp)) msg"
    by blast
next
  assume "http_get w t (releasesURL dv) = Inr resp \<and> http_status resp < 400 \<and>
    JSON_parse w (body resp) = Inr releases \<and> releases (version dv) = None \<and>
    version dv \<notin> set Object_prototype"
  then show "fst (Install_getRelease w dv t) =
      Inl (Error (''Cannot find Undock release '' @ version dv @ '' in '' @ releasesURL dv))"
    by (simp add: Install_getRelease_run js_get_def)
next
  assume "fst (Install_getRelease w dv t) = Inr (Own r)"
  then show "\<exists>resp' releases'.
      http_get w t (releasesURL dv) = Inr resp' \<and> http_status resp' < 400 \<and>
      JSON_parse w (body resp') = Inr releases' \<and> releases' (version dv) = Some r"
    by (auto simp: Install_getRelease_run js_get_def
        split: sum.splits if_splits option.splits)
next
  assume a: "http_get w t releases_url = Inr resp \<and> statusCode resp = Some 404"
  let ?msg = "(''Failed to get Undock releases from '' @ releases_url @
               '' with status code '' @ ''404'' @ '': '' @ body resp)"
  from a have st: "http_status resp = 404" by (simp add: http_status_def)
  with a have "fst (Install_getRelease w (Install_getDownloadVersion ''9.9.9'') t) = Inl (Error ?msg)"
    by (simp add: Install_getRelease_run Install_getDownloadVersion_def string_of_nat_404)
  moreover have "sublist releases_url ?msg"
    by (rule sublist_mid)
  moreover have "sublist ''404''
      ((''Failed to get Undock releases from '' @ releases_url @ '' with status code '') @
       ''404'' @ ('': '' @ body resp))"
    by (rule sublist_mid)
  then have "sublist ''404'' ?msg" by simp
  ultimately show "\<exists>msg.
      fst (Install_getRelease w (Install_getDownloadVersion ''9.9.9'') t) = Inl (Error msg) \<and>
      sublist releases_url msg \<and> sublist ''404'' msg"
    by blast
next
  assume "version dv \<notin> set Object_prototype \<and> fst (Install_getRelease w dv t) = Inr m"
  then show "\<exists>resp' releases' r'.
      m = Own r' \<and>
      http_get w t (releasesURL dv) = Inr resp' \<and> http_status resp' < 400 \<and>
      JSON_parse w (body resp') = Inr releases' \<and> releases' (version dv) = Some r'"
    by (auto simp: Install_getRelease_run js_get_def
        split: sum.splits if_splits option.splits)
qed

text \<open>
  The claim as stated fails for a status that is neither a success nor 400 or above: on a
  300 whose body is the manifest, \<open>getRelease\<close> returns the release.
\<close>

theorem Install_getRelease_counterexample:
  "\<not> spec_success_status 300 \<and>
   Install_getRelease (runner_status 300 body_ex) (Install_getDownloadVersion ''latest'') [] =
     (Inr (Own \<lparr>tag_name = ''v1.2.3''\<rparr>), [HttpGet releases_url])"
  by (simp add: spec_success_status_def Install_getRelease_run Install_getDownloadVersion_def
      http_status_def js_get_def manifest_ex_def world_defs)

text \<open>
  A version named like a member of \<open>Object.prototype\<close> is found although the manifest has
  no such entry: the lookup returns the inherited member.
\<close>

lemma Install_getRelease_inherited_member:
  "Install_getRelease runner (Install_getDownloadVersion ''constructor'') [] =
     (Inr (Inherited ''constructor''), [HttpGet releases_url])"
  by (simp add: Install_getRelease_run Install_getDownloadVersion_def
      http_status_def js_get_def manifest_ex_def Object_prototype_def world_defs)


theorem Install_getRelease_errors_witness:
  "(\<exists>msg. fst (Install_getRelease (runner_status 404 ''Not Found'')
                 (Install_getDownloadVersion ''9.9.9'') []) = Inl (Error msg) \<and>
          sublist releases_url msg \<and> sublist ''404'' msg) \<and>
   (\<exists>msg. fst (Install_getRelease (runner\<lparr>http_get := (\<lambda>t u. Inr \<lparr>statusCode = None, body = ''''\<rparr>)\<rparr>)
                 (Install_getDownloadVersion ''9.9.9'') []) = Inl (Error msg) \<and>
          sublist releases_url msg \<and> sublist (string_of_nat 500) msg) \<and>
   fst (Install_getRelease runner (Install_getDownloadVersion ''9.9.9'') []) =
     Inl (Error (''Cannot find Undock release 9.9.9 in '' @ releases_url)) \<and>
   (\<exists>resp releases.
      http_get runner [] releases_url = Inr resp \<and> http_status resp < 400 \<and>
      JSON_parse runner (body resp) = Inr releases \<and>
      releases ''latest'' = Some \<lparr>tag_name = ''v1.2.3''\<rparr>) \<and>
   (\<exists>resp releases r.
      fst (Install_getRelease runner (Install_getDownloadVersion ''1.2.3'') []) = Inr (Own r) \<and>
      http_get runner [] releases_url = Inr resp \<and> http_status resp < 400 \<and>
      JSON_parse runner (body resp) = Inr releases \<and> releases ''1.2.3'' = Some r)"
proof (intro conjI)
  have "http_get (runner_status 404 ''Not Found'') [] releases_url =
      Inr \<lparr>statusCode = Some 404, body = ''Not Found''\<rparr> \<and>
    statusCode \<lparr>statusCode = Some 404, body = ''Not Found''\<rparr> = Some 404"
    by (simp add: world_defs)
  with Install_getRelease_errors
    [where w = "runner_status 404 ''Not Found''" and t = "[]"
       and resp = "\<lparr>statusCode = Some 404, body = ''Not Found''\<rparr>"]
  show "\<exists>msg. fst (Install_getRelease (runner_status 404 ''Not Found'')
                 (Install_getDownloadVersion ''9.9.9'') []) = Inl (Error msg) \<and>
          sublist releases_url msg \<and> sublist ''404'' msg"
    by blast
next
  let ?w = "runner\<lparr>http_get := (\<lambda>t u. Inr \<lparr>statusCode = None, body = ''''\<rparr>)\<rparr>"
  let ?dv = "Install_getDownloadVersion ''9.9.9''"
  have "http_get ?w [] (releasesURL ?dv) = Inr \<lparr>statusCode = None, body = ''''\<rparr> \<and>
    400 \<le> http_status \<lparr>statusCode = None, body = ''''\<rparr>"
    by (simp add: world_defs http_status_def)
  with Install_getRelease_errors
    [where w = ?w and t = "[]" and dv = ?dv and resp = "\<lparr>statusCode = None, body = ''''\<rparr>"]
  have "\<exists>msg. fst (Install_getRelease ?w ?dv []) = Inl (Error msg) \<and>
      sublist (releasesURL ?dv) msg \<and>
      sublist (string_of_nat (http_status \<lparr>statusCode = None, body = ''''\<rparr>)) msg"
    by blast
  then show "\<exists>msg. fst (Install_getRelease ?w ?dv []) = Inl (Error msg) \<and>
      sublist releases_url msg \<and> sublist (string_of_nat 500) msg"
    by (simp add: Install_getDownloadVersion_def http_status_def)
next
  let ?dv = "Install_getDownloadVersion ''9.9.9''"
  have "http_get runner [] (releasesURL ?dv) = Inr \<lparr>statusCode = Some 200, body = body_ex\<rparr> \<and>
    http_status \<lparr>statusCode = Some 200, body = body_ex\<rparr> < 400 \<and>
    JSON_parse runner (body \<lparr>statusCode = Some 200, body = body_ex\<rparr>) = Inr manifest_ex \<and>
    manifest_ex (version ?dv) = None \<and> version ?dv \<notin> set Object_prototype"
    by (simp add: world_defs http_status_def manifest_ex_def Object_prototype_def
        Install_getDownloadVersion_def)
  with Install_getRelease_errors
    [where w = runner and t = "[]" and dv = ?dv
       and resp = "\<lparr>statusCode = Some 200, body = body_ex\<rparr>" and releases = manifest_ex]
  have "fst (Install_getRelease runner ?dv []) =
      Inl (Error (''Cannot find Undock release '' @ version ?dv @ '' in '' @ releasesURL ?dv))"
    by blast
  then show "fst (Install_getRelease runner ?dv []) =
      Inl (Error (''Cannot find Undock release 9.9.9 in '' @ releases_url))"
    by (simp add: Install_getDownloadVersion_def)
next
  let ?dv = "Install_getDownloadVersion ''latest''"
  have "fst (Install_getRelease runner ?dv []) = Inr (Own \<lparr>tag_name = ''v1.2.3''\<rparr>)"
    by (simp add: Install_getRelease_run Install_getDownloadVersion_def
        http_status_def js_get_def manifest_ex_def world_defs)
  with Install_getRelease_errors
    [where w = runner and t = "[]" and dv = ?dv and r = "\<lparr>tag_name = ''v1.2.3''\<rparr>"]
  have "\<exists>resp' releases'.
      http_get runner [] (releasesURL ?dv) = Inr resp' \<and> http_status resp' < 400 \<and>
      JSON_parse runner (body resp') = Inr releases' \<and>
      releases' (version ?dv) = Some \<lparr>tag_name = ''v1.2.3''\<rparr>"
    by blast
  then show "\<exists>resp releases.
      http_get runner [] releases_url = Inr resp \<and> http_status resp < 400 \<and>
      JSON_parse runner (body resp) = Inr releases \<and>
      releases ''latest'' = Some \<lparr>tag_name = ''v1.2.3''\<rparr>"
    by (simp add: Install_getDownloadVersion_def)
next
  let ?dv = "Install_getDownloadVersion ''1.2.3''"
  have "version ?dv \<notin> set Object_prototype \<and>
    fst (Install_getRelease runner ?dv []) = Inr (Own \<lparr>tag_name = ''v1.2.3''\<rparr>)"
    by (simp add: Install_getRelease_run Install_getDownloadVersion_def Object_prototype_def
        http_status_def js_get_def manifest_ex_def world_defs)
  with Install_getRelease_errors
    [where w = runner and t = "[]" and dv = ?dv and m = "Own \<lparr>tag_name = ''v1.2.3''\<rparr>"]
  have "\<exists>resp' releases' r'.
      Own \<lparr>tag_name = ''v1.2.3''\<rparr> = Own r' \<and>
      http_get runner [] (releasesURL ?dv) = Inr resp' \<and> http_status resp' < 400 \<and>
      JSON_parse runner (body resp') = Inr releases' \<and> releases' (version ?dv) = Some r'"
    by blast
  then obtain resp' releases' r' where
    "Own \<lparr>tag_name = ''v1.2.3''\<rparr> = Own r'"
    "http_get runner [] (releasesURL ?dv) = Inr resp'" "http_status resp' < 400"
    "JSON_parse runner (body resp') = Inr releases'" "releases' (version ?dv) = Some r'"
    by blast
  moreover have "fst (Install_getRelease runner ?dv []) = Inr (Own \<lparr>tag_name = ''v1.2.3''\<rparr>)"
    by (simp add: Install_getRelease_run Install_getDownloadVersion_def
        http_status_def js_get_def manifest_ex_def world_defs)
  ultimately show "\<exists>resp releases r.
      fst (Install_getRelease runner ?dv []) = Inr (Own r) \<and>
      http_get runner [] releases_url = Inr resp \<and> http_status resp < 400 \<and>
      JSON_parse runner (body resp) = Inr releases \<and> releases ''1.2.3'' = Some r"
    by (auto simp: Install_getDownloadVersion_def)
qed

text \<open>
  Claim C6, as the code has it. Once the release is found, \<open>Install.download\<close> throws the
  invalid-version error exactly when \<open>semver.valid\<close> rejects the cleaned version spec, and
  then it has done nothing but fetch the manifest; when \<open>semver.valid\<close> accepts it the
  check passes. Nothing in the code asks whether the version spec is a commit identifier.
\<close>

theorem Install_download_invalid_version:
  assumes "fst (Install_getRelease w (Install_getDownloadVersion v) t) = Inr (Own r)"
  shows "(\<not> truthy_opt (semver_valid w (clean_or_empty w (Install_vspec (tag_name r)))) \<longrightarrow>
           Install_download w v gha t =
             (Inl (Error (''Invalid Undock version '' @ dquote @ Install_vspec (tag_name r) @
                          dquote @ ''.'')),
              t @ [HttpGet releases_url])) \<and>
         (truthy_opt (semver_valid w (clean_or_empty w (Install_vspec (tag_name r)))) \<longrightarrow>
           Install_download_resolve w v t =
             (Inr (Install_getDownloadVersion v, Install_vspec (tag_name r)),
              t @ [HttpGet releases_url]))"
  using assms
  by (simp add: Install_download_run Install_download_resolve_run member_tag_name_def)

lemma resolve_nightly:
  "Install_getRelease runner (Install_getDownloadVersion ''nightly'') [] =
     (Inr (Own \<lparr>tag_name = sha_ex\<rparr>), [HttpGet releases_url])"
  by (simp add: Install_getRelease_run Install_getDownloadVersion_def
      http_status_def js_get_def manifest_ex_def world_defs)

lemma release_latest:
  "Install_getRelease runner (Install_getDownloadVersion ''latest'') [] =
     (Inr (Own \<lparr>tag_name = ''v1.2.3''\<rparr>), [HttpGet releases_url])"
  by (simp add: Install_getRelease_run Install_getDownloadVersion_def
      http_status_def js_get_def manifest_ex_def world_defs)

lemma vspec_sha_ex: "Install_vspec sha_ex = sha_ex"
  by (simp add: Install_vspec_def sha_ex_def)

theorem Install_download_invalid_version_witness:
  "Install_download runner ''nightly'' None [] =
     (Inl (Error (''Invalid Undock version '' @ dquote @ sha_ex @ dquote @ ''.'')),
      [HttpGet releases_url]) \<and>
   Install_download_resolve runner ''latest'' [] =
     (Inr (Install_getDownloadVersion ''latest'', ''1.2.3''), [HttpGet releases_url])"
proof
  have r: "fst (Install_getRelease runner (Install_getDownloadVersion ''nightly'') []) =
      Inr (Own \<lparr>tag_name = sha_ex\<rparr>)"
    by (simp add: resolve_nightly)
  have bad: "\<not> truthy_opt (semver_valid runner
      (clean_or_empty runner (Install_vspec (tag_name \<lparr>tag_name = sha_ex\<rparr>))))"
    by (simp add: Install_vspec_def clean_or_empty_def semver_ex_def sha_ex_def truthy_opt_def
        truthy_def runner_def)
  from Install_download_invalid_version[OF r, of None, THEN conjunct1] bad
  have "Install_download runner ''nightly'' None [] =
      (Inl (Error (''Invalid Undock version '' @ dquote @
          Install_vspec (tag_name \<lparr>tag_name = sha_ex\<rparr>) @ dquote @ ''.'')),
       [] @ [HttpGet releases_url])"
    by (rule mp)
  then show "Install_download runner ''nightly'' None [] =
     (Inl (Error (''Invalid Undock version '' @ dquote @ sha_ex @ dquote @ ''.'')),
      [HttpGet releases_url])"
    by (simp add: vspec_sha_ex)
next
  have r: "fst (Install_getRelease runner (Install_getDownloadVersion ''latest'') []) =
      Inr (Own \<lparr>tag_name = ''v1.2.3''\<rparr>)"
    by (simp add: release_latest)
  have v: "Install_vspec ''v1.2.3'' = ''1.2.3''"
    by (simp add: Install_vspec_def)
  have good: "truthy_opt (semver_valid runner
      (clean_or_empty runner (Install_vspec (tag_name \<lparr>tag_name = ''v1.2.3''\<rparr>))))"
    by (simp add: v clean_or_empty_def semver_ex_def truthy_opt_def truthy_def runner_def)
  from Install_download_invalid_version[OF r, of None, THEN conjunct2] good
  have "Install_download_resolve runner ''latest'' [] =
      (Inr (Install_getDownloadVersion ''latest'',
            Install_vspec (tag_name \<lparr>tag_name = ''v1.2.3''\<rparr>)),
       [] @ [HttpGet releases_url])"
    by (rule mp)
  then show "Install_download_resolve runner ''latest'' [] =
     (Inr (Install_getDownloadVersion ''latest'', ''1.2.3''), [HttpGet releases_url])"
    by (simp add: v)
qed

text \<open>
  The claim as stated fails: for a release whose tag is a commit identifier the download
  throws the invalid-version error.
\<close>

theorem Install_download_commit_sha_counterexample:
  "spec_commit_sha sha_ex \<and>
   semver_clean runner sha_ex = None \<and>
   fst (Install_download runner ''nightly'' None []) =
     Inl (Error (''Invalid Undock version '' @ dquote @ sha_ex @ dquote @ ''.''))"
proof (intro conjI)
  show "spec_commit_sha sha_ex"
    by (simp add: spec_commit_sha_def sha_ex_def)
  show "semver_clean runner sha_ex = None"
    by (simp add: runner_def semver_ex_def sha_ex_def)
  show "fst (Install_download runner ''nightly'' None []) =
     Inl (Error (''Invalid Undock version '' @ dquote @ sha_ex @ dquote @ ''.''))"
    by (simp add: Install_download_run Install_download_resolve_run Install_getRelease_run
        Install_getDownloadVersion_def Install_vspec_def http_status_def
        js_get_def member_tag_name_def manifest_ex_def semver_ex_def clean_or_empty_def
        sha_ex_def dquote_def world_defs example_defs)
qed


subsection \<open>The path a download returns\<close>

lemma Cache_find_result:
  "Cache_find w c t = (Inr x, t') \<Longrightarrow> x = cachePath c \<or> x = ''''"
  by (auto simp: Cache_find_run Cache_copyToCache_run split: sum.splits if_splits)

lemma Cache_save_result:
  "Cache_save w c src t = (Inr x, t') \<Longrightarrow> x = cachePath c"
  by (auto simp: Cache_save_run split: sum.splits if_splits)

lemma Cache_constructor_result:
  "Cache_constructor w os t = (Inr c, t') \<Longrightarrow>
     cachePath c =
       path_join w [path_join w [baseCacheDir os, htcVersion os, Cache_platform w], cacheFile os]"
  by (auto simp: Cache_constructor_run Let_def split: sum.splits if_splits)

text \<open>
  Claim C10. Whenever \<open>Install.download\<close> returns, the path it returns is the cache path of
  the cache object it built: \<open>path.join\<close> of the base directory \<open>{home}/.bin\<close>, the version
  spec and the platform string, joined with \<open>undock.exe\<close> on win32 and \<open>undock\<close> elsewhere.
  It is that path when \<open>find\<close> had a hit and when the binary was downloaded, extracted and
  saved.
\<close>

theorem Install_download_returns_cachePath:
  assumes "Install_download w v gha t = (Inr p, t')"
  shows "\<exists>dv vs t1 c t2.
      Install_download_resolve w v t = (Inr (dv, vs), t1) \<and>
      Cache_constructor w (Install_cacheOpts w vs gha) t1 = (Inr c, t2) \<and>
      p = cachePath c \<and>
      cachePath c =
        path_join w [path_join w [path_join w [os_homedir w, ''.bin''], vs, Cache_platform w],
                     Install_exe w] \<and>
      Install_exe w = (if os_platform w = ''win32'' then ''undock.exe'' else ''undock'') \<and>
      ((truthy p \<and> Cache_find w c t2 = (Inr p, t')) \<or>
       (\<exists>t3 src t4. Cache_find w c t2 = (Inr '''', t3) \<and> Cache_save w c src t4 = (Inr p, t')))"
proof -
  obtain r1 t1 where r1: "Install_download_resolve w v t = (r1, t1)"
    by (cases "Install_download_resolve w v t")
  with assms obtain dv vs where ok1: "r1 = Inr (dv, vs)"
    by (cases r1) (auto simp: Install_download_run)
  obtain r2 t2 where r2: "Cache_constructor w (Install_cacheOpts w vs gha) t1 = (r2, t2)"
    by (cases "Cache_constructor w (Install_cacheOpts w vs gha) t1")
  with assms r1 ok1 obtain c where ok2: "r2 = Inr c"
    by (cases r2) (auto simp: Install_download_run)
  obtain r3 t3 where r3: "Cache_find w c t2 = (r3, t3)"
    by (cases "Cache_find w c t2")
  with assms r1 ok1 r2 ok2 obtain found where ok3: "r3 = Inr found"
    by (cases r3) (auto simp: Install_download_run)
  from r2 ok2 have path: "cachePath c =
      path_join w [path_join w [path_join w [os_homedir w, ''.bin''], vs, Cache_platform w],
                   Install_exe w]"
    by (auto dest: Cache_constructor_result simp: Install_cacheOpts_def)
  have exe: "Install_exe w = (if os_platform w = ''win32'' then ''undock.exe'' else ''undock'')"
    by (simp add: Install_exe_def)
  have branch: "p = cachePath c \<and>
      ((truthy p \<and> Cache_find w c t2 = (Inr p, t')) \<or>
       (\<exists>t3 src t4. Cache_find w c t2 = (Inr '''', t3) \<and> Cache_save w c src t4 = (Inr p, t')))"
  proof (cases "truthy found")
    case True
    with assms r1 ok1 r2 ok2 r3 ok3 have "found = p" "t3 = t'"
      by (simp_all add: Install_download_run)
    with r3 ok3 True Cache_find_result[of w c t2 p t'] show ?thesis
      by (auto simp: truthy_def)
  next
    case False
    then have e: "found = ''''" by (simp add: truthy_def)
    from assms r1 ok1 r2 ok2 r3 ok3 False
    obtain src t4 where sv: "Cache_save w c src t4 = (Inr p, t')"
      by (auto simp: Install_download_run Let_def split: sum.splits if_splits)
    from Cache_save_result[OF sv] have "p = cachePath c" .
    with r3 ok3 e sv show ?thesis by blast
  qed
  from r1 ok1 r2 ok2 path exe branch show ?thesis by blast
qed

lemma download_miss_ex:
  "Install_download runner ''latest'' None [] =
     (Inr ''/home/runner/.bin/1.2.3/linux-x64/undock'',
      [HttpGet releases_url,
       ExistsSync ''/home/runner/.bin/1.2.3/linux-x64'',
       MkdirSync ''/home/runner/.bin/1.2.3/linux-x64'',
       TcFind ''undock-dl-bin'' ''1.2.3'' ''linux-x64'',
       RestoreCache [''/home/runner/.bin/1.2.3/linux-x64''] ''undock-dl-bin-1.2.3-linux-x64'',
       TcDownloadTool ''https://github.com/crazy-max/undock/releases/download/v1.2.3/undock_1.2.3_linux_amd64.tar.gz'',
       TcExtractTar ''/tmp/dl'',
       CopyFileSync ''/tmp/ext/undock'' ''/home/runner/.bin/1.2.3/linux-x64/undock'',
       TcCacheDir ''/home/runner/.bin/1.2.3/linux-x64'' ''undock-dl-bin'' ''1.2.3'' ''linux-x64'',
       SaveCache [''/home/runner/.bin/1.2.3/linux-x64''] ''undock-dl-bin-1.2.3-linux-x64''])"
  by (simp add: Install_download_run Install_download_resolve_run Install_getRelease_run
      Install_getDownloadVersion_def Install_vspec_def Install_filename_def http_status_def
      js_get_def member_tag_name_def manifest_ex_def semver_ex_def body_ex_def clean_or_empty_def
      Cache_constructor_run Cache_find_run Cache_save_run Cache_copyToCache_run
      Let_def world_defs example_defs)

lemma download_hit_ex:
  "Install_download runner_htc_hit ''latest'' None [] =
     (Inr ''/home/runner/.bin/1.2.3/linux-x64/undock'',
      [HttpGet releases_url,
       ExistsSync ''/home/runner/.bin/1.2.3/linux-x64'',
       MkdirSync ''/home/runner/.bin/1.2.3/linux-x64'',
       TcFind ''undock-dl-bin'' ''1.2.3'' ''linux-x64'',
       CopyFileSync ''/opt/hostedtoolcache/undock-dl-bin/1.2.3/linux-x64/undock''
         ''/home/runner/.bin/1.2.3/linux-x64/undock''])"
  by (simp add: Install_download_run Install_download_resolve_run Install_getRelease_run
      Install_getDownloadVersion_def Install_vspec_def Install_filename_def http_status_def
      js_get_def member_tag_name_def manifest_ex_def semver_ex_def body_ex_def clean_or_empty_def
      Cache_constructor_run Cache_find_run Cache_save_run Cache_copyToCache_run
      Let_def world_defs example_defs)

lemma resolve_latest_hit:
  "Install_download_resolve runner_htc_hit ''latest'' [] =
     (Inr (Install_getDownloadVersion ''latest'', ''1.2.3''), [HttpGet releases_url])"
  by (simp add: Install_download_resolve_run Install_getRelease_run
      Install_getDownloadVersion_def Install_vspec_def http_status_def
      js_get_def member_tag_name_def manifest_ex_def semver_ex_def clean_or_empty_def
      world_defs example_defs)

theorem Install_download_returns_cachePath_witness:
  "fst (Install_download runner ''latest'' None []) =
     Inr (path_join runner
            [path_join runner [path_join runner [os_homedir runner, ''.bin''], ''1.2.3'',
                               Cache_platform runner], Install_exe runner]) \<and>
   fst (Install_download runner_htc_hit ''latest'' None []) =
     Inr (path_join runner_htc_hit
            [path_join runner_htc_hit [path_join runner_htc_hit [os_homedir runner_htc_hit, ''.bin''],
                                       ''1.2.3'', Cache_platform runner_htc_hit],
             Install_exe runner_htc_hit]) \<and>
   fst (Install_download runner ''latest'' None []) =
     fst (Install_download runner_htc_hit ''latest'' None []) \<and>
   fst (Install_download runner ''latest'' None []) = Inr ''/home/runner/.bin/1.2.3/linux-x64/undock''"
proof -
  from Install_download_returns_cachePath[OF download_miss_ex]
  obtain dv vs t1 where
    "Install_download_resolve runner ''latest'' [] = (Inr (dv, vs), t1)"
    "''/home/runner/.bin/1.2.3/linux-x64/undock'' =
       path_join runner [path_join runner [path_join runner [os_homedir runner, ''.bin''], vs,
                                           Cache_platform runner], Install_exe runner]"
    by auto
  then have miss: "''/home/runner/.bin/1.2.3/linux-x64/undock'' =
       path_join runner [path_join runner [path_join runner [os_homedir runner, ''.bin''], ''1.2.3'',
                                           Cache_platform runner], Install_exe runner]"
    by (simp add: resolve_latest)
  from Install_download_returns_cachePath[OF download_hit_ex]
  obtain dv' vs' t1' where
    "Install_download_resolve runner_htc_hit ''latest'' [] = (Inr (dv', vs'), t1')"
    "''/home/runner/.bin/1.2.3/linux-x64/undock'' =
       path_join runner_htc_hit
         [path_join runner_htc_hit [path_join runner_htc_hit [os_homedir runner_htc_hit, ''.bin''], vs',
                                    Cache_platform runner_htc_hit], Install_exe runner_htc_hit]"
    by auto
  then have hit: "''/home/runner/.bin/1.2.3/linux-x64/undock'' =
       path_join runner_htc_hit
         [path_join runner_htc_hit [path_join runner_htc_hit [os_homedir runner_htc_hit, ''.bin''],
                                    ''1.2.3'', Cache_platform runner_htc_hit],
          Install_exe runner_htc_hit]"
    by (simp add: resolve_latest_hit)
  have a: "fst (Install_download runner ''latest'' None []) =
      Inr ''/home/runner/.bin/1.2.3/linux-x64/undock''"
    by (simp add: download_miss_ex)
  have b: "fst (Install_download runner_htc_hit ''latest'' None []) =
      Inr ''/home/runner/.bin/1.2.3/linux-x64/undock''"
    by (simp add: download_hit_ex)
  from a b miss hit show ?thesis by (simp only: simp_thms)
qed

end
